theory Spec2Isabelle
  imports Complex_Main
begin

section \<open>Python values and errors\<close>

text \<open>
  The values that the JSON loader and the database cursor hand to the code. The
  float of a JSON token or of a column is kept as its real value.
\<close>

datatype pyval =
    PNone
  | PBool bool
  | PInt int
  | PFloat real
  | PStr string
  | PList "pyval list"
  | PDict "(string \<times> pyval) list"

type_synonym sql = string

text \<open>
  The exceptions the modelled code can raise. The four \<open>ValueError\<close>s of
  \<open>db_util.py\<close> and the one of \<open>bonus.py\<close> are told apart by their message;
  \<open>MathDomainError\<close> is the \<open>ValueError\<close> of \<open>math.pow\<close>.
\<close>

datatype py_error =
    MathDomainError
  | OverflowError
  | ZeroDivisionError
  | TypeError
  | IndexError
  | AttributeError
  | KeyError string
  | IntValueError string
  | UnexpectedKeys "string set"
  | GotZeroResults sql
  | GotTooManyResults nat sql
  | TooManyColumns sql
  | TooManyResultsForInsert nat sql
  | External string

definition and_then :: "'e + 'a \<Rightarrow> ('a \<Rightarrow> 'e + 'b) \<Rightarrow> 'e + 'b" where
  "and_then m f = (case m of Inl e \<Rightarrow> Inl e | Inr x \<Rightarrow> f x)"

section \<open>Python floats\<close>

text \<open>
  A Python float is an IEEE 754 binary64 value: a finite number, an infinity or
  a NaN. A finite float is kept as the real number it denotes; the two zeros are
  one value, which the code below cannot tell apart (they compare equal and no
  float is ever a divisor).
\<close>

datatype double = Fin real | PInf | NInf | NaN

text \<open>
  Rounding to the nearest binary64 value, ties to the even significand. For a
  number of magnitude at least \<open>2 ^ e\<close> and below \<open>2 ^ (e + 1)\<close> the neighbouring
  floats are the multiples of \<open>2 ^ (e - 52)\<close>, and the multiples of
  \<open>2 ^ (- 1074)\<close> in the subnormal range \<open>e < - 1022\<close>. A rounded result of
  magnitude \<open>2 ^ 1024\<close> or more overflows.
\<close>

definition expo :: "real \<Rightarrow> int" where
  "expo x = \<lfloor>log 2 \<bar>x\<bar>\<rfloor>"

definition grid :: "real \<Rightarrow> int" where
  "grid x = max (expo x) (- 1022) - 52"

definition round_even :: "real \<Rightarrow> int" where
  "round_even r =
     (let f = \<lfloor>r\<rfloor>
      in if r - of_int f < 1 / 2 then f
         else if 1 / 2 < r - of_int f then f + 1
         else if even f then f else f + 1)"

definition rnd :: "real \<Rightarrow> real" where
  "rnd x = (if x = 0 then 0 else of_int (round_even (x / 2 powi grid x)) * 2 powi grid x)"

definition to_double :: "real \<Rightarrow> double" where
  "to_double x =
     (let r = rnd x
      in if 2 ^ 1024 \<le> r then PInf else if r \<le> - (2 ^ 1024) then NInf else Fin r)"

text \<open>Float arithmetic: the exact result, rounded; infinities and NaN as in IEEE 754.\<close>

fun fneg :: "double \<Rightarrow> double" where
  "fneg (Fin x) = Fin (- x)"
| "fneg PInf = NInf"
| "fneg NInf = PInf"
| "fneg NaN = NaN"

fun fadd :: "double \<Rightarrow> double \<Rightarrow> double" where
  "fadd (Fin x) (Fin y) = to_double (x + y)"
| "fadd NaN _ = NaN"
| "fadd _ NaN = NaN"
| "fadd PInf NInf = NaN"
| "fadd NInf PInf = NaN"
| "fadd PInf _ = PInf"
| "fadd _ PInf = PInf"
| "fadd NInf _ = NInf"
| "fadd _ NInf = NInf"

definition fsub :: "double \<Rightarrow> double \<Rightarrow> double" where
  "fsub a b = fadd a (fneg b)"

fun fmul :: "double \<Rightarrow> double \<Rightarrow> double" where
  "fmul (Fin x) (Fin y) = to_double (x * y)"
| "fmul NaN _ = NaN"
| "fmul _ NaN = NaN"
| "fmul (Fin x) d = (if x = 0 then NaN else if 0 < x then d else fneg d)"
| "fmul d (Fin y) = (if y = 0 then NaN else if 0 < y then d else fneg d)"
| "fmul PInf d = d"
| "fmul NInf d = fneg d"

text \<open>A Python number: an \<open>int\<close> of any size or a \<open>float\<close>.\<close>

datatype num = NInt int | NFloat double

text \<open>
  \<open>float(n)\<close>, also applied to an \<open>int\<close> operand next to a \<open>float\<close> one: correctly
  rounded, and \<open>OverflowError\<close> when the \<open>int\<close> is too large.
\<close>

fun to_float :: "num \<Rightarrow> py_error + double" where
  "to_float (NInt n) =
     (case to_double (of_int n) of Fin r \<Rightarrow> Inr (Fin r) | _ \<Rightarrow> Inl OverflowError)"
| "to_float (NFloat d) = Inr d"

text \<open>\<open>a / b\<close> on two \<open>int\<close>s: the correctly rounded quotient.\<close>

definition int_truediv :: "int \<Rightarrow> int \<Rightarrow> py_error + double" where
  "int_truediv a b =
     (if b = 0 then Inl ZeroDivisionError
      else case to_double (of_int a / of_int b) of
             Fin r \<Rightarrow> Inr (Fin r)
           | _ \<Rightarrow> Inl OverflowError)"

fun py_add :: "num \<Rightarrow> num \<Rightarrow> py_error + num" where
  "py_add (NInt a) (NInt b) = Inr (NInt (a + b))"
| "py_add a b =
     and_then (to_float a) (\<lambda>x. and_then (to_float b) (\<lambda>y. Inr (NFloat (fadd x y))))"

fun py_sub :: "num \<Rightarrow> num \<Rightarrow> py_error + num" where
  "py_sub (NInt a) (NInt b) = Inr (NInt (a - b))"
| "py_sub a b =
     and_then (to_float a) (\<lambda>x. and_then (to_float b) (\<lambda>y. Inr (NFloat (fsub x y))))"

fun py_mul :: "num \<Rightarrow> num \<Rightarrow> py_error + num" where
  "py_mul (NInt a) (NInt b) = Inr (NInt (a * b))"
| "py_mul a b =
     and_then (to_float a) (\<lambda>x. and_then (to_float b) (\<lambda>y. Inr (NFloat (fmul x y))))"

text \<open>\<open>a == b\<close> on numbers: an \<open>int\<close> and a \<open>float\<close> are compared by their exact values.\<close>

fun py_eq :: "num \<Rightarrow> num \<Rightarrow> bool" where
  "py_eq (NInt a) (NInt b) = (a = b)"
| "py_eq (NInt a) (NFloat (Fin y)) = (of_int a = y)"
| "py_eq (NFloat (Fin x)) (NInt b) = (x = of_int b)"
| "py_eq (NFloat (Fin x)) (NFloat (Fin y)) = (x = y)"
| "py_eq (NFloat PInf) (NFloat PInf) = True"
| "py_eq (NFloat NInf) (NFloat NInf) = True"
| "py_eq _ _ = False"

text \<open>Truth value of a number: zero is falsy, NaN and the infinities are not.\<close>

fun truthy :: "num \<Rightarrow> bool" where
  "truthy (NInt n) = (n \<noteq> 0)"
| "truthy (NFloat d) = (d \<noteq> Fin 0)"


section \<open>math.pow\<close>

text \<open>
  What \<open>math.pow\<close> takes from the platform: the C library's \<open>pow\<close> on finite
  arguments outside its special cases (base not 0 or 1, exponent not 0, and an
  integral exponent when the base is negative), whose rounding the C standard
  leaves open, and the outcome of \<open>math.pow(0.0, -inf)\<close>, which differs between
  Python versions.
\<close>

record platform =
  c_pow :: "real \<Rightarrow> real \<Rightarrow> double"
  zero_to_neg_inf :: "py_error + double"

definition odd_integer :: "real \<Rightarrow> bool" where
  "odd_integer y = (y = of_int \<lfloor>y\<rfloor> \<and> odd \<lfloor>y\<rfloor>)"

text \<open>
  \<open>math.pow(x, y)\<close> on two floats. A NaN or an infinity from the C library on
  finite arguments becomes \<open>ValueError\<close> or \<open>OverflowError\<close>.
\<close>

fun math_pow :: "platform \<Rightarrow> double \<Rightarrow> double \<Rightarrow> py_error + double" where
  "math_pow pf (Fin a) (Fin b) =
     (if b = 0 \<or> a = 1 then Inr (Fin 1)
      else if a = 0 then (if 0 < b then Inr (Fin 0) else Inl MathDomainError)
      else if a < 0 \<and> b \<noteq> of_int \<lfloor>b\<rfloor> then Inl MathDomainError
      else
        (case c_pow pf a b of
           Fin r \<Rightarrow> Inr (Fin r)
         | NaN \<Rightarrow> Inl MathDomainError
         | _ \<Rightarrow> Inl OverflowError))"
| "math_pow pf NaN y = (if y = Fin 0 then Inr (Fin 1) else Inr NaN)"
| "math_pow pf x NaN = (if x = Fin 1 then Inr (Fin 1) else Inr NaN)"
| "math_pow pf PInf (Fin b) =
     (if 0 < b then Inr PInf else if b = 0 then Inr (Fin 1) else Inr (Fin 0))"
| "math_pow pf NInf (Fin b) =
     (if 0 < b then Inr (if odd_integer b then NInf else PInf)
      else if b = 0 then Inr (Fin 1) else Inr (Fin 0))"
| "math_pow pf PInf PInf = Inr PInf"
| "math_pow pf NInf PInf = Inr PInf"
| "math_pow pf PInf NInf = Inr (Fin 0)"
| "math_pow pf NInf NInf = Inr (Fin 0)"
| "math_pow pf (Fin a) PInf =
     (if \<bar>a\<bar> = 1 then Inr (Fin 1) else if 1 < \<bar>a\<bar> then Inr PInf else Inr (Fin 0))"
| "math_pow pf (Fin a) NInf =
     (if \<bar>a\<bar> = 1 then Inr (Fin 1)
      else if \<bar>a\<bar> < 1 then (if a = 0 then zero_to_neg_inf pf else Inr PInf)
      else Inr (Fin 0))"

section \<open>card.py: Curve\<close>

record Curve =
  min_value :: num
  max_value :: num
  scale :: double
  max_level :: int

text \<open>
  \<open>Curve.__init__(min_value, max_value=None, scale=1.0, max_level=10)\<close>. In
  \<open>max_value or min_value * max_level\<close> the product is computed only when
  \<open>max_value\<close> is \<open>None\<close> or zero, with the \<open>max_level\<close> argument as passed, before
  it is clamped.
\<close>

definition Curve_init :: "num \<Rightarrow> num option \<Rightarrow> double \<Rightarrow> int \<Rightarrow> py_error + Curve" where
  "Curve_init mn mx sc lv =
     and_then
       (case mx of
          None \<Rightarrow> py_mul mn (NInt lv)
        | Some v \<Rightarrow> if truthy v then Inr v else py_mul mn (NInt lv))
       (\<lambda>m. Inr \<lparr> min_value = mn, max_value = m, scale = sc, max_level = max lv 1 \<rparr>)"

text \<open>
  \<open>value_at(level)\<close>: the ratio \<open>f\<close> is the \<open>int\<close> 1 or a quotient of two \<open>int\<close>s;
  then, from left to right, the difference of the endpoints, \<open>math.pow\<close> on
  \<open>float(f)\<close> and the scale, the product and the sum.
\<close>

definition value_at :: "platform \<Rightarrow> Curve \<Rightarrow> int \<Rightarrow> py_error + num" where
  "value_at pf c level =
     and_then
       (if max_level c = 1 then Inr (NInt 1)
        else and_then (int_truediv (level - 1) (max_level c - 1)) (\<lambda>q. Inr (NFloat q)))
       (\<lambda>f.
     and_then (py_sub (max_value c) (min_value c)) (\<lambda>d.
     and_then (to_float f) (\<lambda>x.
     and_then (math_pow pf x (scale c)) (\<lambda>p.
     and_then (py_mul d (NFloat p)) (\<lambda>t.
     py_add (min_value c) t)))))"

text \<open>
  A platform for the examples: a correctly rounded \<open>pow\<close>, and infinity for
  \<open>math.pow(0.0, -inf)\<close>.
\<close>

definition example_platform :: platform where
  "example_platform =
     \<lparr> c_pow = (\<lambda>a b. to_double (\<bar>a\<bar> powr b * (if a < 0 \<and> odd_integer b then - 1 else 1))),
       zero_to_neg_inf = Inr PInf \<rparr>"

section \<open>card.py: unflatten\<close>

text \<open>
  Python list primitives on a list of length \<open>n\<close>: an index \<open>i\<close> counts from the end
  when negative and raises \<open>IndexError\<close> out of range; a slice bound is clamped to
  \<open>[0, n]\<close>, and a slice whose stop is not after its start is empty.
\<close>

definition py_index :: "'a list \<Rightarrow> int \<Rightarrow> nat option" where
  "py_index xs i =
     (let n = int (length xs); j = (if i < 0 then n + i else i)
      in if 0 \<le> j \<and> j < n then Some (nat j) else None)"

definition slice_bound :: "nat \<Rightarrow> int \<Rightarrow> nat" where
  "slice_bound n i = (if i < 0 then nat (max (int n + i) 0) else min (nat i) n)"

definition py_slice :: "'a list \<Rightarrow> int \<Rightarrow> int \<Rightarrow> 'a list" where
  "py_slice xs start stop =
     (let a = slice_bound (length xs) start; b = slice_bound (length xs) stop
      in take (b - a) (drop a xs))"

definition py_del_slice :: "'a list \<Rightarrow> int \<Rightarrow> int \<Rightarrow> 'a list" where
  "py_del_slice xs start stop =
     (let a = slice_bound (length xs) start; b = slice_bound (length xs) stop
      in take a xs @ drop (max a b) xs)"

text \<open>\<open>item_count == 0\<close> on a JSON token.\<close>

fun eq_zero :: "pyval \<Rightarrow> bool" where
  "eq_zero (PInt n) = (n = 0)"
| "eq_zero (PBool b) = (\<not> b)"
| "eq_zero (PFloat r) = (r = 0)"
| "eq_zero _ = False"

text \<open>
  The tokens usable as a slice bound: \<open>width * item_count\<close> and the slice built from
  it are integers only for an \<open>int\<close> or \<open>bool\<close> count; every other token raises
  \<open>TypeError\<close> before the list is touched.
\<close>

fun as_int :: "pyval \<Rightarrow> int option" where
  "as_int (PInt n) = Some n"
| "as_int (PBool b) = Some (if b then 1 else 0)"
| "as_int _ = None"

text \<open>
  \<open>unflatten(raw, idx, width, replace=False)\<close> mutates \<open>raw\<close> in place; the model
  returns the new list.
\<close>

definition unflatten :: "pyval list \<Rightarrow> int \<Rightarrow> int \<Rightarrow> bool \<Rightarrow> py_error + pyval list" where
  "unflatten raw idx width replace =
     (case py_index raw idx of
        None \<Rightarrow> Inl IndexError
      | Some k \<Rightarrow>
          let item_count = raw ! k in
          if eq_zero item_count \<and> replace then Inr (raw[k := PList []])
          else
            (case as_int item_count of
               None \<Rightarrow> Inl TypeError
             | Some n \<Rightarrow>
                 let data_start = idx + 1;
                     flattened_item_count = width * n;
                     stop = data_start + flattened_item_count;
                     data = py_slice raw data_start stop;
                     raw' = py_del_slice raw data_start stop
                 in if replace then
                      (case py_index raw' idx of
                         None \<Rightarrow> Inl IndexError
                       | Some k' \<Rightarrow> Inr (raw'[k' := PList data]))
                    else Inr raw'))"

section \<open>Python builtins used by the decoders and the store wrapper\<close>

text \<open>
  Helpers that live outside the modelled files (\<open>pad_util\<close>, \<open>shared_types\<close>) are
  parameters. They return \<open>Inl msg\<close> when they raise; the exception is kept apart
  from the ones raised by the modelled code itself.
\<close>

definition external :: "string + 'a \<Rightarrow> py_error + 'a" where
  "external r = (case r of Inl msg \<Rightarrow> Inl (External msg) | Inr x \<Rightarrow> Inr x)"

text \<open>\<open>str(n)\<close> and \<open>'{}'.format(n)\<close> for an integer: its decimal digits.\<close>

definition digit_char :: "nat \<Rightarrow> char" where
  "digit_char d = ''0123456789'' ! d"

function str_nat :: "nat \<Rightarrow> string" where
  "str_nat n = (if n < 10 then [digit_char n] else str_nat (n div 10) @ [digit_char (n mod 10)])"
  by pat_completeness auto
termination
  by (relation "measure id") auto

declare str_nat.simps [simp del]

definition str_int :: "int \<Rightarrow> string" where
  "str_int i = (if i < 0 then CHR ''-'' # str_nat (nat (- i)) else str_nat (nat i))"

text \<open>
  \<open>str(v)\<close>. The text of a float, a list or a dict is left to the parameter
  \<open>str_other\<close>.
\<close>

fun py_str :: "(pyval \<Rightarrow> string) \<Rightarrow> pyval \<Rightarrow> string" where
  "py_str str_other (PStr s) = s"
| "py_str str_other (PInt n) = str_int n"
| "py_str str_other (PBool b) = (if b then ''True'' else ''False'')"
| "py_str str_other PNone = ''None''"
| "py_str str_other v = str_other v"

text \<open>
  \<open>int(v)\<close>. A float is truncated toward zero. The parser of integer literals in
  strings is the parameter \<open>int_of_str\<close> (\<open>None\<close> for an invalid literal).
\<close>

fun py_int :: "(string \<Rightarrow> int option) \<Rightarrow> pyval \<Rightarrow> py_error + int" where
  "py_int int_of_str (PInt n) = Inr n"
| "py_int int_of_str (PBool b) = Inr (if b then 1 else 0)"
| "py_int int_of_str (PFloat r) = Inr (if 0 \<le> r then \<lfloor>r\<rfloor> else \<lceil>r\<rceil>)"
| "py_int int_of_str (PStr s) =
     (case int_of_str s of None \<Rightarrow> Inl (IntValueError s) | Some n \<Rightarrow> Inr n)"
| "py_int int_of_str _ = Inl TypeError"

text \<open>\<open>d[k]\<close> on a dict given as an association list with distinct keys.\<close>

definition dict_item :: "(string \<times> 'v) list \<Rightarrow> string \<Rightarrow> py_error + 'v" where
  "dict_item d k = (case map_of d k of None \<Rightarrow> Inl (KeyError k) | Some v \<Rightarrow> Inr v)"

section \<open>bonus.py: Bonus\<close>

datatype mod_fn = Ghmult_plain | Ghchance_plain | Int_fn

record bonus_info =
  name :: string
  mod_fn :: "mod_fn option"

definition types :: "(int \<times> bonus_info) list" where
  "types =
    [ (1, \<lparr>name = ''Exp Boost'', mod_fn = Some Ghmult_plain\<rparr>),
      (2, \<lparr>name = ''Coin Boost'', mod_fn = Some Ghmult_plain\<rparr>),
      (3, \<lparr>name = ''Drop Boost'', mod_fn = Some Ghmult_plain\<rparr>),
      (5, \<lparr>name = ''Stamina Reduction'', mod_fn = Some Ghmult_plain\<rparr>),
      (6, \<lparr>name = ''dungeon'', mod_fn = None\<rparr>),
      (8, \<lparr>name = ''pem_event'', mod_fn = None\<rparr>),
      (9, \<lparr>name = ''rem_event'', mod_fn = None\<rparr>),
      (10, \<lparr>name = ''pem_cost'', mod_fn = Some Int_fn\<rparr>),
      (11, \<lparr>name = ''Feed Exp Bonus Chance'', mod_fn = Some Ghmult_plain\<rparr>),
      (12, \<lparr>name = ''+Egg Drop Rate 1'', mod_fn = Some Ghchance_plain\<rparr>),
      (14, \<lparr>name = ''gf_?'', mod_fn = None\<rparr>),
      (16, \<lparr>name = ''+Egg Drop Rate 2'', mod_fn = Some Ghmult_plain\<rparr>),
      (17, \<lparr>name = ''Feed Skill-Up Chance'', mod_fn = Some Ghmult_plain\<rparr>),
      (20, \<lparr>name = ''tournament_active'', mod_fn = None\<rparr>),
      (21, \<lparr>name = ''tournament_closed'', mod_fn = None\<rparr>),
      (22, \<lparr>name = ''score_announcement'', mod_fn = None\<rparr>),
      (23, \<lparr>name = ''meta?'', mod_fn = None\<rparr>),
      (24, \<lparr>name = ''gift_dungeon_with_reward'', mod_fn = None\<rparr>),
      (25, \<lparr>name = ''dungeon_special_event'', mod_fn = None\<rparr>),
      (29, \<lparr>name = ''multiplayer_announcement'', mod_fn = None\<rparr>),
      (31, \<lparr>name = ''multiplayer_dungeon_text'', mod_fn = None\<rparr>),
      (32, \<lparr>name = ''tournament_text'', mod_fn = None\<rparr>),
      (36, \<lparr>name = ''daily_dragons'', mod_fn = None\<rparr>),
      (37, \<lparr>name = ''monthly_quest_dungeon'', mod_fn = None\<rparr>),
      (39, \<lparr>name = ''dungeon_floor_text'', mod_fn = None\<rparr>),
      (43, \<lparr>name = ''monthly_quest_info'', mod_fn = None\<rparr>) ]"

definition keys :: string where
  "keys = ''sebiadmf''"

text \<open>\<open>set(Bonus.keys)\<close>: the one-character strings of \<open>keys\<close>.\<close>

definition key_set :: "string set" where
  "key_set = set (map (\<lambda>c. [c]) keys)"

text \<open>The collaborators of the decoder that are not part of the modelled files.\<close>

record bonus_env =
  gh_to_timestamp :: "string \<Rightarrow> string \<Rightarrow> string + int"
  strip_colors :: "string \<Rightarrow> string"
  ghmult_plain :: "pyval \<Rightarrow> string + pyval"
  ghchance_plain :: "pyval \<Rightarrow> string + pyval"
  DungeonId :: "pyval \<Rightarrow> string + pyval"
  DungeonFloorId :: "pyval \<Rightarrow> string + pyval"
  int_of_str :: "string \<Rightarrow> int option"
  str_other :: "pyval \<Rightarrow> string"

text \<open>
  The attributes set by \<open>Bonus.__init__\<close>. An attribute that is \<open>None\<close> is \<open>PNone\<close>
  where the attribute holds a raw JSON value, and \<open>None\<close> otherwise.
\<close>

record bonus_fields =
  start_time_str :: string
  start_timestamp :: int
  end_time_str :: string
  end_timestamp :: int
  dungeon_id :: pyval
  dungeon_floor_id :: pyval
  egg_machine_id :: "int option"
  message :: "string option"
  clean_message :: "string option"

record Bonus = bonus_fields +
  bonus_value :: pyval
  bonus_name :: string
  bonus_id :: int

text \<open>
  Lines 116 to 146 of \<open>Bonus.__init__\<close>: the times, the optional ids and the
  message.
\<close>

definition decode_fields :: "bonus_env \<Rightarrow> (string \<times> pyval) list \<Rightarrow> string \<Rightarrow> py_error + bonus_fields" where
  "decode_fields env raw server =
     and_then (dict_item raw ''s'') (\<lambda>s.
     and_then (external (gh_to_timestamp env (py_str (str_other env) s) server)) (\<lambda>s_ts.
     and_then (dict_item raw ''e'') (\<lambda>e.
     and_then (external (gh_to_timestamp env (py_str (str_other env) e) server)) (\<lambda>e_ts.
     and_then (case map_of raw ''d'' of None \<Rightarrow> Inr PNone
               | Some d \<Rightarrow> external (DungeonId env d)) (\<lambda>d_id.
     and_then (case map_of raw ''f'' of None \<Rightarrow> Inr PNone
               | Some f \<Rightarrow> external (DungeonFloorId env f)) (\<lambda>f_id.
     and_then (case map_of raw ''i'' of None \<Rightarrow> Inr None
               | Some i \<Rightarrow> and_then (py_int (int_of_str env) i) (\<lambda>n. Inr (Some n))) (\<lambda>egg.
     Inr \<lparr> start_time_str = py_str (str_other env) s,
           start_timestamp = s_ts,
           end_time_str = py_str (str_other env) e,
           end_timestamp = e_ts,
           dungeon_id = d_id,
           dungeon_floor_id = f_id,
           egg_machine_id = egg,
           message = map_option (py_str (str_other env)) (map_of raw ''m''),
           clean_message =
             map_option (\<lambda>m. strip_colors env (py_str (str_other env) m)) (map_of raw ''m'')
         \<rparr>)))))))"

definition apply_mod_fn :: "bonus_env \<Rightarrow> mod_fn \<Rightarrow> pyval \<Rightarrow> py_error + pyval" where
  "apply_mod_fn env fn v =
     (case fn of
        Ghmult_plain \<Rightarrow> external (ghmult_plain env v)
      | Ghchance_plain \<Rightarrow> external (ghchance_plain env v)
      | Int_fn \<Rightarrow> and_then (py_int (int_of_str env) v) (\<lambda>n. Inr (PInt n)))"

text \<open>\<open>Bonus.types.get(bonus_id, {'name': 'unknown_id:{}'.format(bonus_id)})\<close>.\<close>

definition types_get :: "int \<Rightarrow> bonus_info" where
  "types_get bid =
     (case map_of types bid of
        Some info \<Rightarrow> info
      | None \<Rightarrow> \<lparr>name = ''unknown_id:'' @ str_int bid, mod_fn = None\<rparr>)"

text \<open>\<open>Bonus.__init__(raw, server)\<close>.\<close>

definition Bonus_init :: "bonus_env \<Rightarrow> (string \<times> pyval) list \<Rightarrow> string \<Rightarrow> py_error + Bonus" where
  "Bonus_init env raw server =
     (if \<not> set (map fst raw) \<subseteq> key_set
      then Inl (UnexpectedKeys (set (map fst raw) - key_set))
      else
        and_then (decode_fields env raw server) (\<lambda>fs.
        and_then (dict_item raw ''b'') (\<lambda>b.
        and_then (py_int (int_of_str env) b) (\<lambda>bid.
        let info = types_get bid in
        and_then (case map_of raw ''a'' of
                    None \<Rightarrow> Inr PNone
                  | Some a \<Rightarrow>
                      (case mod_fn info of
                         Some fn \<Rightarrow> apply_mod_fn env fn a
                       | None \<Rightarrow> Inr a)) (\<lambda>val.
        Inr (bonus_fields.extend fs
               \<lparr> bonus_value = val,
                 bonus_name = name info,
                 bonus_id = bid \<rparr>))))))"

text \<open>
  Stand-ins for the collaborators, used only to evaluate the decoder on examples:
  a timestamp parser that reads the time string as a decimal number of seconds
  and fails on anything else, and identity functions for the rest.
\<close>

definition example_env :: bonus_env where
  "example_env =
     \<lparr> gh_to_timestamp = (\<lambda>s server.
         if s = ''1000'' then Inr 1000 else if s = ''2000'' then Inr 2000
         else Inl ''bad time string''),
       strip_colors = (\<lambda>m. m),
       ghmult_plain = (\<lambda>v. Inr v),
       ghchance_plain = (\<lambda>v. Inr v),
       DungeonId = (\<lambda>v. Inr v),
       DungeonFloorId = (\<lambda>v. Inr v),
       int_of_str = (\<lambda>s. None),
       str_other = (\<lambda>v. ''?'') \<rparr>"

section \<open>db_util.py: DbWrapper\<close>

text \<open>
  The relational store is an external collaborator. A cursor of \<open>DictCursor\<close>
  class yields each row as a dict from column name to value; after \<open>execute\<close> the
  cursor holds the number of rows that \<open>execute\<close> returned, the rows that
  \<open>fetchall\<close> yields, and \<open>lastrowid\<close>.
\<close>

type_synonym row = "(string \<times> pyval) list"

record cursor_result =
  rowcount :: nat
  rows :: "row list"
  lastrowid :: int

text \<open>
  The store itself is a parameter: a state of any type \<open>'db\<close> and a function that
  runs one statement on it.
\<close>

type_synonym 'db store = "'db \<Rightarrow> sql \<Rightarrow> 'db \<times> cursor_result"

text \<open>
  Every statement that reaches \<open>execute\<close> is recorded together with the method that
  issued it: \<open>insert_item\<close> is the only method that issues writes (inserts and
  updates alike), the others issue reads.
\<close>

datatype stmt_kind = Read | Write

text \<open>
  The wrapper: its \<open>dry_run\<close> flag and the store behind its connection, the
  statements executed so far, and the state of the \<open>random\<close> module as the sequence
  of its raw draws and the number of draws taken.
\<close>

record 'db DbWrapper =
  dry_run :: bool
  connection :: 'db
  executed :: "(stmt_kind \<times> sql) list"
  rand_seq :: "nat \<Rightarrow> nat"
  rand_pos :: nat

definition writes :: "'db DbWrapper \<Rightarrow> sql list" where
  "writes st = map snd (filter (\<lambda>q. fst q = Write) (executed st))"

definition execute ::
  "'db store \<Rightarrow> 'db DbWrapper \<Rightarrow> stmt_kind \<Rightarrow> sql \<Rightarrow> cursor_result \<times> 'db DbWrapper" where
  "execute run st kind q =
     (let (db', res) = run (connection st) q
      in (res, st\<lparr>connection := db', executed := executed st @ [(kind, q)]\<rparr>))"

text \<open>\<open>random.randrange(a, b)\<close> for \<open>a < b\<close>: one draw, mapped into \<open>[a, b)\<close>.\<close>

definition randrange :: "'db DbWrapper \<Rightarrow> int \<Rightarrow> int \<Rightarrow> int \<times> 'db DbWrapper" where
  "randrange st a b =
     (a + int (rand_seq st (rand_pos st) mod nat (b - a)), st\<lparr>rand_pos := rand_pos st + 1\<rparr>)"

text \<open>
  \<open>get_single_value(sql, op=str, fail_on_empty=True)\<close>; \<open>op\<close> is passed by the
  caller.
\<close>

definition get_single_value ::
  "'db store \<Rightarrow> 'db DbWrapper \<Rightarrow> sql \<Rightarrow> (pyval \<Rightarrow> py_error + 'a) \<Rightarrow> bool
     \<Rightarrow> (py_error + 'a option) \<times> 'db DbWrapper" where
  "get_single_value run st q op fail_on_empty =
     (let (res, st') = execute run st Read q;
          data = rows res;
          num_rows = length data
      in if num_rows = 0 then
           (if dry_run st' \<or> \<not> fail_on_empty then (Inr None, st')
            else (Inl (GotZeroResults q), st'))
         else if num_rows > 1 then (Inl (GotTooManyResults num_rows q), st')
         else
           let row = data ! 0 in
           if length (map snd row) > 1 then (Inl (TooManyColumns q), st')
           else
             (case map snd row of
                [] \<Rightarrow> (Inl IndexError, st')
              | v # _ \<Rightarrow> (and_then (op v) (\<lambda>x. Inr (Some x)), st')))"

definition check_existing ::
  "'db store \<Rightarrow> 'db DbWrapper \<Rightarrow> sql \<Rightarrow> (py_error + bool) \<times> 'db DbWrapper" where
  "check_existing run st q =
     (let (res, st') = execute run st Read q;
          num_rows = rowcount res
      in if num_rows > 1 then (Inl (GotTooManyResults num_rows q), st')
         else (Inr (num_rows \<noteq> 0), st'))"

text \<open>
  \<open>check_existing_value\<close> returns \<open>None\<close>, the single value of the row, or the list
  of its values. \<open>fetchone()\<close> is \<open>None\<close> when the cursor holds no row.
\<close>

definition check_existing_value ::
  "'db store \<Rightarrow> 'db DbWrapper \<Rightarrow> sql \<Rightarrow> (py_error + pyval) \<times> 'db DbWrapper" where
  "check_existing_value run st q =
     (let (res, st') = execute run st Read q;
          num_rows = rowcount res
      in if num_rows > 1 then (Inl (GotTooManyResults num_rows q), st')
         else if num_rows = 0 then (Inr PNone, st')
         else
           (case rows res of
              [] \<Rightarrow> (Inl AttributeError, st')
            | r # _ \<Rightarrow>
                let row_values = map snd r in
                if length row_values > 1 then (Inr (PList row_values), st')
                else
                  (case row_values of
                     [] \<Rightarrow> (Inl IndexError, st')
                   | v # _ \<Rightarrow> (Inr v, st'))))"

definition insert_item ::
  "'db store \<Rightarrow> 'db DbWrapper \<Rightarrow> sql \<Rightarrow> (py_error + int) \<times> 'db DbWrapper" where
  "insert_item run st q =
     (if dry_run st then
        (let (k, st') = randrange st (- 99999) (- 1) in (Inr k, st'))
      else
        let (res, st') = execute run st Write q;
            data = rows res;
            num_rows = length data
        in if num_rows > 0 then (Inl (TooManyResultsForInsert num_rows q), st')
           else (Inr (lastrowid res), st'))"

text \<open>
  \<open>SqlItem\<close> is defined outside the modelled files; its methods are parameters over
  an item type \<open>'i\<close>. A key is an integer or \<open>None\<close>.
\<close>

record 'i sql_item =
  key_value :: "'i \<Rightarrow> int option"
  set_key_value :: "'i \<Rightarrow> int option \<Rightarrow> 'i"
  uses_alternate_key_lookup :: "'i \<Rightarrow> bool"
  uses_local_primary_key :: "'i \<Rightarrow> bool"
  needs_insert :: "'i \<Rightarrow> bool"
  exists_sql :: "'i \<Rightarrow> sql"
  insert_sql :: "'i \<Rightarrow> sql"
  update_sql :: "'i \<Rightarrow> sql"
  needs_update_sql :: "'i \<Rightarrow> sql"

text \<open>\<open>not key\<close>: \<open>None\<close> and \<open>0\<close> are falsy.\<close>

definition falsy :: "int option \<Rightarrow> bool" where
  "falsy key = (key = None \<or> key = Some 0)"

text \<open>
  The tail shared by the three branches of \<open>insert_or_update\<close>:
  \<open>elif not self.check_existing(item.needs_update_sql()): self.insert_item(item.update_sql())\<close>.
  The value returned by \<open>insert_item\<close> is dropped and \<open>key\<close> is kept.
\<close>

definition update_if_needed ::
  "'i sql_item \<Rightarrow> 'db store \<Rightarrow> 'db DbWrapper \<Rightarrow> 'i \<Rightarrow> int option
     \<Rightarrow> (py_error + int option) \<times> 'db DbWrapper" where
  "update_if_needed ops run st item key =
     (case check_existing run st (needs_update_sql ops item) of
        (Inl e, st1) \<Rightarrow> (Inl e, st1)
      | (Inr found, st1) \<Rightarrow>
          if \<not> found then
            (case insert_item run st1 (update_sql ops item) of
               (Inl e, st2) \<Rightarrow> (Inl e, st2)
             | (Inr _, st2) \<Rightarrow> (Inr key, st2))
          else (Inr key, st1))"

text \<open>\<open>key = self.insert_item(item.insert_sql())\<close>.\<close>

definition insert_new ::
  "'i sql_item \<Rightarrow> 'db store \<Rightarrow> 'db DbWrapper \<Rightarrow> 'i
     \<Rightarrow> (py_error + int option) \<times> 'db DbWrapper" where
  "insert_new ops run st item =
     (case insert_item run st (insert_sql ops item) of
        (Inl e, st1) \<Rightarrow> (Inl e, st1)
      | (Inr k, st1) \<Rightarrow> (Inr (Some k), st1))"

text \<open>
  \<open>insert_or_update(item)\<close> returns the key; the model also returns the item, which
  the alternate-key branch mutates through \<open>set_key_value\<close>, and the wrapper.
  \<open>parse\<close> is the parser of integer literals behind \<open>op=int\<close>.
\<close>

definition insert_or_update ::
  "'i sql_item \<Rightarrow> 'db store \<Rightarrow> (string \<Rightarrow> int option) \<Rightarrow> 'db DbWrapper \<Rightarrow> 'i
     \<Rightarrow> (py_error + int option) \<times> 'i \<times> 'db DbWrapper" where
  "insert_or_update ops run parse st item =
     (let key = key_value ops item in
      if uses_alternate_key_lookup ops item then
        (case get_single_value run st (exists_sql ops item) (py_int parse) False of
           (Inl e, st1) \<Rightarrow> (Inl e, item, st1)
         | (Inr key, st1) \<Rightarrow>
             let item1 = set_key_value ops item key in
             if falsy key then
               (let (r, st2) = insert_new ops run st1 item1 in (r, item1, st2))
             else
               (let (r, st2) = update_if_needed ops run st1 item1 key in (r, item1, st2)))
      else if \<not> uses_local_primary_key ops item then
        (case check_existing run st (exists_sql ops item) of
           (Inl e, st1) \<Rightarrow> (Inl e, item, st1)
         | (Inr found, st1) \<Rightarrow>
             if \<not> found then
               (let (r, st2) = insert_new ops run st1 item in (r, item, st2))
             else
               (let (r, st2) = update_if_needed ops run st1 item key in (r, item, st2)))
      else
        if needs_insert ops item then
          (let (r, st1) = insert_new ops run st item in (r, item, st1))
        else
          (let (r, st1) = update_if_needed ops run st item key in (r, item, st1)))"

text \<open>
  A small store and record type on which the wrapper is evaluated in the
  examples. The store keeps the number \<open>n\<close> of rows of one table; an insert adds a
  row and generates the key \<open>n + 1\<close>, and every select matches all \<open>n\<close> rows, with
  two columns for the statement \<open>SELECT id, name\<close> and one column otherwise.
\<close>

definition example_store :: "nat store" where
  "example_store n q =
     (if q = ''INSERT'' then
        (Suc n, \<lparr>rowcount = 1, rows = [], lastrowid = int (Suc n)\<rparr>)
      else if q = ''UPDATE'' then
        (n, \<lparr>rowcount = n, rows = [], lastrowid = 0\<rparr>)
      else if q = ''SELECT id, name'' then
        (n, \<lparr>rowcount = n,
             rows = replicate n [(''id'', PInt 1), (''name'', PStr ''x'')],
             lastrowid = 0\<rparr>)
      else
        (n, \<lparr>rowcount = n, rows = replicate n [(''id'', PInt 1)], lastrowid = 0\<rparr>))"

record example_item =
  item_key :: "int option"
  alternate :: bool
  local_key :: bool

text \<open>
  Modelled from the spec: \<open>SqlItem\<close> is not among the modelled files; by the spec,
  a record with a local primary key needs insertion when its key is unset.
\<close>

definition example_ops :: "example_item sql_item" where
  "example_ops =
     \<lparr> key_value = item_key,
       set_key_value = (\<lambda>i k. i\<lparr>item_key := k\<rparr>),
       uses_alternate_key_lookup = alternate,
       uses_local_primary_key = local_key,
       needs_insert = (\<lambda>i. falsy (item_key i)),
       exists_sql = (\<lambda>i. ''SELECT id WHERE name''),
       insert_sql = (\<lambda>i. ''INSERT''),
       update_sql = (\<lambda>i. ''UPDATE''),
       needs_update_sql = (\<lambda>i. ''SELECT id WHERE same'') \<rparr>"

definition example_wrapper :: "bool \<Rightarrow> nat \<Rightarrow> nat DbWrapper" where
  "example_wrapper dry n =
     \<lparr> dry_run = dry, connection = n, executed = [], rand_seq = (\<lambda>i. 7 * i + 3), rand_pos = 0 \<rparr>"

section \<open>Properties of float rounding\<close>

lemma and_then_simps [simp]:
  "and_then (Inl e) f = Inl e"
  "and_then (Inr x) f = f x"
  by (simp_all add: and_then_def)

lemma powr2_int: "(2::real) powr (of_int e) = 2 powi e"
  by (simp add: powr_real_of_int')

lemma powr2_int_Suc: "(2::real) powr (of_int e + 1) = 2 powi (e + 1)"
  using powr2_int[of "e + 1"] by simp

lemma expo_bounds:
  assumes "x \<noteq> 0"
  shows "2 powi expo x \<le> \<bar>x\<bar>" and "\<bar>x\<bar> < 2 powi (expo x + 1)"
proof -
  have pos: "0 < \<bar>x\<bar>" using assms by simp
  have "of_int (expo x) \<le> log 2 \<bar>x\<bar>" by (simp add: expo_def)
  then have "2 powr (of_int (expo x)) \<le> \<bar>x\<bar>"
    using pos by (simp add: le_log_iff)
  then show "2 powi expo x \<le> \<bar>x\<bar>"
    by (simp add: powr2_int)
  have "log 2 \<bar>x\<bar> < of_int (expo x) + 1" by (simp add: expo_def)
  then have "\<bar>x\<bar> < 2 powr (of_int (expo x) + 1)"
    using pos by (simp add: log_less_iff)
  then show "\<bar>x\<bar> < 2 powi (expo x + 1)"
    by (simp only: powr2_int_Suc)
qed

lemma expo_eqI:
  assumes "2 powi e \<le> \<bar>x\<bar>" "\<bar>x\<bar> < 2 powi (e + 1)"
  shows "expo x = e"
proof -
  have "0 < (2::real) powi e" by simp
  then have pos: "0 < \<bar>x\<bar>" using assms(1) by linarith
  have "2 powr (of_int e) \<le> \<bar>x\<bar>" using assms(1) by (simp add: powr2_int)
  then have a: "of_int e \<le> log 2 \<bar>x\<bar>" using pos by (simp add: le_log_iff)
  have "\<bar>x\<bar> < 2 powr (of_int e + 1)" using assms(2) by (simp only: powr2_int_Suc)
  then have b: "log 2 \<bar>x\<bar> < of_int e + 1" using pos by (simp add: log_less_iff)
  show ?thesis unfolding expo_def using a b by linarith
qed

lemma expo_mono:
  assumes "x \<noteq> 0" "\<bar>x\<bar> \<le> \<bar>y\<bar>"
  shows "expo x \<le> expo y"
proof -
  have "log 2 \<bar>x\<bar> \<le> log 2 \<bar>y\<bar>" using assms by simp
  then show ?thesis unfolding expo_def by (rule floor_mono)
qed

lemma round_even_int [simp]: "round_even (of_int k) = k"
  by (simp add: round_even_def)

lemma round_even_bounds: "\<lfloor>r\<rfloor> \<le> round_even r" "round_even r \<le> \<lfloor>r\<rfloor> + 1"
  by (simp_all add: round_even_def Let_def)

lemma round_even_mono:
  assumes "r \<le> s"
  shows "round_even r \<le> round_even s"
proof (cases "\<lfloor>r\<rfloor> = \<lfloor>s\<rfloor>")
  case True
  then show ?thesis using assms
    by (auto simp: round_even_def Let_def)
next
  case False
  then have "\<lfloor>r\<rfloor> < \<lfloor>s\<rfloor>" using floor_mono[OF assms] by linarith
  then show ?thesis
    using round_even_bounds(2)[of r] round_even_bounds(1)[of s] by linarith
qed

lemma rnd_zero [simp]: "rnd 0 = 0"
  by (simp add: rnd_def)

lemma rnd_grid_le:
  assumes "x \<le> of_int k * 2 powi grid x"
  shows "rnd x \<le> of_int k * 2 powi grid x"
proof (cases "x = 0")
  case True
  then show ?thesis using assms by simp
next
  case False
  have "x / 2 powi grid x \<le> of_int k"
    using assms by (simp add: divide_le_eq)
  then have "round_even (x / 2 powi grid x) \<le> k"
    using round_even_mono[of "x / 2 powi grid x" "of_int k"] by simp
  then have "(of_int (round_even (x / 2 powi grid x)) :: real) \<le> of_int k"
    by simp
  then have "of_int (round_even (x / 2 powi grid x)) * 2 powi grid x \<le> (of_int k :: real) * 2 powi grid x"
    by (rule mult_right_mono) simp
  then show ?thesis using False by (simp add: rnd_def)
qed

lemma rnd_grid_ge:
  assumes "of_int k * 2 powi grid x \<le> x"
  shows "of_int k * 2 powi grid x \<le> rnd x"
proof (cases "x = 0")
  case True
  then show ?thesis using assms by simp
next
  case False
  have "of_int k \<le> x / 2 powi grid x"
    using assms by (simp add: le_divide_eq)
  then have "k \<le> round_even (x / 2 powi grid x)"
    using round_even_mono[of "of_int k" "x / 2 powi grid x"] by simp
  then have "(of_int k :: real) \<le> of_int (round_even (x / 2 powi grid x))"
    by simp
  then have "(of_int k :: real) * 2 powi grid x \<le> of_int (round_even (x / 2 powi grid x)) * 2 powi grid x"
    by (rule mult_right_mono) simp
  then show ?thesis using False by (simp add: rnd_def)
qed


lemma floor_neg_nonint:
  assumes "r \<noteq> of_int \<lfloor>r\<rfloor>"
  shows "\<lfloor>- r\<rfloor> = - \<lfloor>r\<rfloor> - 1"
proof -
  have "\<lceil>r\<rceil> = \<lfloor>r\<rfloor> + 1" using assms by (simp add: ceiling_altdef)
  then show ?thesis by (simp add: ceiling_def)
qed

lemma round_even_minus: "round_even (- r) = - round_even r"
proof (cases "r = of_int \<lfloor>r\<rfloor>")
  case True
  then obtain k where "r = of_int k" by blast
  then have "- r = of_int (- k)" by simp
  then show ?thesis using \<open>r = of_int k\<close> by (simp only: round_even_int)
next
  case False
  note fl = floor_neg_nonint[OF False]
  have d: "- r - of_int (- \<lfloor>r\<rfloor> - 1) = 1 - (r - of_int \<lfloor>r\<rfloor>)" by simp
  have gt: "0 < r - of_int \<lfloor>r\<rfloor>" using False by (metis diff_gt_0_iff_gt of_int_floor_le order_less_le)
  show ?thesis
    unfolding round_even_def Let_def fl d
    by auto
qed

lemma expo_minus [simp]: "expo (- x) = expo x"
  by (simp add: expo_def)

lemma grid_minus [simp]: "grid (- x) = grid x"
  by (simp add: grid_def)

lemma rnd_minus: "rnd (- x) = - rnd x"
  by (simp add: rnd_def round_even_minus)

lemma grid_mono:
  assumes "x \<noteq> 0" "\<bar>x\<bar> \<le> \<bar>y\<bar>"
  shows "grid x \<le> grid y"
  using expo_mono[OF assms] by (simp add: grid_def)

lemma two_powi_split:
  assumes "q \<le> e"
  shows "(2::real) powi e = of_int (2 ^ nat (e - q)) * 2 powi q"
proof -
  have "(2::real) powi e = 2 powi ((e - q) + q)" by simp
  also have "\<dots> = 2 powi (e - q) * 2 powi q" by (rule power_int_add) simp
  also have "(2::real) powi (e - q) = of_int (2 ^ nat (e - q))"
    using assms by (simp add: power_int_def)
  finally show ?thesis .
qed

lemma rnd_mono_pos:
  assumes "0 < x" "x \<le> y"
  shows "rnd x \<le> rnd y"
proof (cases "grid x = grid y")
  case True
  have "x / 2 powi grid y \<le> y / 2 powi grid y"
    using assms(2) by (simp add: divide_right_mono)
  then have "round_even (x / 2 powi grid y) \<le> round_even (y / 2 powi grid y)"
    by (rule round_even_mono)
  then have "(of_int (round_even (x / 2 powi grid y)) :: real) \<le> of_int (round_even (y / 2 powi grid y))"
    by simp
  then have "of_int (round_even (x / 2 powi grid y)) * 2 powi grid y
      \<le> (of_int (round_even (y / 2 powi grid y)) :: real) * 2 powi grid y"
    by (rule mult_right_mono) simp
  then show ?thesis using assms True by (simp add: rnd_def)
next
  case False
  have xy: "x \<noteq> 0" "y \<noteq> 0" "\<bar>x\<bar> \<le> \<bar>y\<bar>" using assms by simp_all
  have lt: "grid x < grid y" using False grid_mono[OF xy(1,3)] by simp
  define E where "E = expo y"
  have E: "grid y = E - 52" "expo x < E"
    using lt by (auto simp: grid_def E_def max_def split: if_splits)
  have "x < 2 powi (expo x + 1)" using expo_bounds(2)[OF xy(1)] assms(1) by simp
  also have "(2::real) powi (expo x + 1) \<le> 2 powi E"
    using E(2) by (intro power_int_increasing) simp_all
  finally have xB: "x \<le> 2 powi E" by simp
  have By: "2 powi E \<le> y" using expo_bounds(1)[OF xy(2)] assms by (simp add: E_def)
  have qx: "grid x \<le> E" using lt E(1) by simp
  have qy: "grid y \<le> E" using E(1) by simp
  have "rnd x \<le> of_int (2 ^ nat (E - grid x)) * 2 powi grid x"
    using xB by (intro rnd_grid_le) (simp only: two_powi_split[OF qx, symmetric])
  moreover have "of_int (2 ^ nat (E - grid y)) * 2 powi grid y \<le> rnd y"
    using By by (intro rnd_grid_ge) (simp only: two_powi_split[OF qy, symmetric])
  ultimately show ?thesis
    by (simp only: two_powi_split[OF qx, symmetric] two_powi_split[OF qy, symmetric])
qed

lemma rnd_nonneg: "0 \<le> x \<Longrightarrow> 0 \<le> rnd x"
  using rnd_grid_ge[of 0 x] by simp

lemma rnd_nonpos: "x \<le> 0 \<Longrightarrow> rnd x \<le> 0"
  using rnd_grid_le[of x 0] by simp

lemma rnd_mono:
  assumes "x \<le> y"
  shows "rnd x \<le> rnd y"
proof -
  consider "0 < x" | "x \<le> 0" "0 \<le> y" | "y < 0" by linarith
  then show ?thesis
  proof cases
    case 1
    then show ?thesis using assms by (rule rnd_mono_pos)
  next
    case 2
    then show ?thesis using rnd_nonneg[of y] rnd_nonpos[of x] by linarith
  next
    case 3
    then have "0 < - y" "- y \<le> - x" using assms by simp_all
    then have "rnd (- y) \<le> rnd (- x)" by (rule rnd_mono_pos)
    then show ?thesis by (simp add: rnd_minus)
  qed
qed

lemma rnd_exact:
  assumes "x = of_int k * 2 powi grid x"
  shows "rnd x = x"
proof (cases "x = 0")
  case True then show ?thesis by simp
next
  case False
  have "x / 2 powi grid x = of_int k"
    using assms by (simp add: field_simps)
  then show ?thesis using False assms by (simp add: rnd_def)
qed

lemma expo_int_range:
  assumes "n \<noteq> 0" "\<bar>n\<bar> \<le> 2 ^ 53"
  shows "0 \<le> expo (of_int n)" "expo (of_int n) \<le> 53"
proof -
  let ?x = "of_int n :: real"
  have nz: "?x \<noteq> 0" using assms by simp
  have "1 \<le> \<bar>n\<bar>" using assms(1) by simp
  then have "(1::real) \<le> of_int \<bar>n\<bar>" by (simp only: of_int_1_le_iff)
  then have lo: "1 \<le> \<bar>?x\<bar>" by simp
  have "(of_int \<bar>n\<bar> :: real) \<le> of_int (2 ^ 53)" using assms(2) by (simp only: of_int_le_iff)
  then have hi: "\<bar>?x\<bar> \<le> 2 ^ 53" by simp
  show "0 \<le> expo ?x"
  proof (rule ccontr)
    assume "\<not> 0 \<le> expo ?x"
    then have "expo ?x + 1 \<le> 0" by simp
    then have "(2::real) powi (expo ?x + 1) \<le> 2 powi 0"
      by (intro power_int_increasing) simp_all
    with expo_bounds(2)[OF nz] lo show False by simp
  qed
  show "expo ?x \<le> 53"
  proof (rule ccontr)
    assume "\<not> expo ?x \<le> 53"
    then have "54 \<le> expo ?x" by simp
    then have "(2::real) powi 54 \<le> 2 powi expo ?x"
      by (intro power_int_increasing) simp_all
    with expo_bounds(1)[OF nz] hi show False by simp
  qed
qed

lemma rnd_int:
  assumes "\<bar>n\<bar> \<le> 2 ^ 53"
  shows "rnd (of_int n) = of_int n"
proof (cases "n = 0")
  case True then show ?thesis by simp
next
  case False
  let ?x = "of_int n :: real"
  note r = expo_int_range[OF False assms]
  show ?thesis
  proof (cases "expo ?x = 53")
    case True
    have nz: "?x \<noteq> 0" using False by simp
    have "(2::real) powi 53 \<le> \<bar>?x\<bar>" using expo_bounds(1)[OF nz] True by simp
    then have "(2::real) ^ 53 \<le> \<bar>?x\<bar>" by simp
    then have "(of_int (2 ^ 53) :: real) \<le> of_int \<bar>n\<bar>" by simp
    then have "(2::int) ^ 53 \<le> \<bar>n\<bar>" by (simp only: of_int_le_iff)
    with assms have "\<bar>n\<bar> = 2 ^ 53" by simp
    then have "n = 2 ^ 53 \<or> n = - (2 ^ 53)" by linarith
    then have "?x = of_int (n div 2) * 2 powi 1" by auto
    moreover have "grid ?x = 1" using True by (simp add: grid_def)
    ultimately show ?thesis using rnd_exact[of ?x "n div 2"] by simp
  next
    case False
    then have q: "grid ?x \<le> 0" using r by (simp add: grid_def)
    have "(2::real) powi 0 = of_int (2 ^ nat (0 - grid ?x)) * 2 powi grid ?x"
      using q by (rule two_powi_split)
    then have "?x = of_int (n * 2 ^ nat (0 - grid ?x)) * 2 powi grid ?x"
      by (simp add: mult.assoc)
    then show ?thesis by (rule rnd_exact)
  qed
qed

lemma expo_2_53_plus_1: "expo 9007199254740993 = 53"
  by (rule expo_eqI) simp_all

lemma rnd_2_53_plus_1: "rnd 9007199254740993 = 9007199254740992"
  by (simp add: rnd_def grid_def expo_2_53_plus_1 round_even_def Let_def)

section \<open>Properties of Curve\<close>

lemma two_53_lt_two_1024: "(2::real) ^ 53 < 2 ^ 1024"
  by (rule power_strict_increasing) simp_all

lemma to_double_finite:
  assumes "- (2 ^ 53) \<le> rnd x" "rnd x \<le> 2 ^ 53"
  shows "to_double x = Fin (rnd x)"
proof -
  have "rnd x < 2 ^ 1024" "- (2 ^ 1024) < rnd x"
    using assms two_53_lt_two_1024 by linarith+
  then show ?thesis by (simp add: to_double_def Let_def)
qed

lemma of_int_bounded:
  assumes "\<bar>n\<bar> \<le> 2 ^ 53"
  shows "- (2 ^ 53) \<le> (of_int n :: real)" "(of_int n :: real) \<le> 2 ^ 53"
proof -
  have "(of_int \<bar>n\<bar> :: real) \<le> of_int (2 ^ 53)" using assms by (simp only: of_int_le_iff)
  then have "\<bar>of_int n :: real\<bar> \<le> 2 ^ 53" by simp
  then show "- (2 ^ 53) \<le> (of_int n :: real)" "(of_int n :: real) \<le> 2 ^ 53"
    by linarith+
qed

lemma to_double_int:
  assumes "\<bar>n\<bar> \<le> 2 ^ 53"
  shows "to_double (of_int n) = Fin (of_int n)"
  using to_double_finite[of "of_int n"] rnd_int[OF assms] of_int_bounded[OF assms] by simp

lemma to_double_between:
  assumes "of_int a \<le> x" "x \<le> of_int b" "\<bar>a\<bar> \<le> 2 ^ 53" "\<bar>b\<bar> \<le> 2 ^ 53"
  shows "to_double x = Fin (rnd x)" "of_int a \<le> rnd x" "rnd x \<le> of_int b"
proof -
  show lo: "of_int a \<le> rnd x" using rnd_mono[OF assms(1)] rnd_int[OF assms(3)] by simp
  show hi: "rnd x \<le> of_int b" using rnd_mono[OF assms(2)] rnd_int[OF assms(4)] by simp
  show "to_double x = Fin (rnd x)"
    using lo hi of_int_bounded(1)[OF assms(3)] of_int_bounded(2)[OF assms(4)]
    by (intro to_double_finite) linarith+
qed

lemma to_float_int:
  "\<bar>n\<bar> \<le> 2 ^ 53 \<Longrightarrow> to_float (NInt n) = Inr (Fin (of_int n))"
  by (simp add: to_double_int)

lemma to_double_0 [simp]: "to_double 0 = Fin 0"
  using to_double_int[of 0] by simp

lemma to_double_1 [simp]: "to_double 1 = Fin 1"
  using to_double_int[of 1] by simp

lemma math_pow_base_one: "math_pow pf (Fin 1) y = Inr (Fin 1)"
  by (cases y) simp_all


lemma math_pow_exponent_zero: "math_pow pf (Fin a) (Fin 0) = Inr (Fin 1)"
  by simp

lemma ratio_top: "m \<noteq> 1 \<Longrightarrow> int_truediv (m - 1) (m - 1) = Inr (Fin 1)"
  by (simp add: int_truediv_def)




lemma value_at_int:
  assumes "min_value c = NInt a" "max_value c = NInt b"
    and "\<bar>a\<bar> \<le> 2 ^ 53" "\<bar>b - a\<bar> \<le> 2 ^ 53"
    and "(if max_level c = 1 then Inr (NInt 1)
          else and_then (int_truediv (level - 1) (max_level c - 1)) (\<lambda>q. Inr (NFloat q)))
         = Inr f"
    and "to_float f = Inr x"
    and "math_pow pf x (scale c) = Inr (Fin p)"
  shows "value_at pf c level
           = Inr (NFloat (fadd (Fin (of_int a)) (to_double (of_int (b - a) * p))))"
  using assms(1,2,5,6,7) to_float_int[OF assms(3)] to_float_int[OF assms(4)]
  by (simp add: value_at_def)

lemma value_at_int_ratio_one:
  assumes "min_value c = NInt a" "max_value c = NInt b"
    and "\<bar>a\<bar> \<le> 2 ^ 53" "\<bar>b\<bar> \<le> 2 ^ 53" "\<bar>b - a\<bar> \<le> 2 ^ 53"
    and "max_level c = 1 \<or> level = max_level c"
  shows "value_at pf c level = Inr (NFloat (Fin (of_int b)))"
proof -
  have f: "(if max_level c = 1 then Inr (NInt 1)
          else and_then (int_truediv (level - 1) (max_level c - 1)) (\<lambda>q. Inr (NFloat q)))
         = Inr (if max_level c = 1 then NInt 1 else NFloat (Fin 1))"
    using assms(6) by (auto simp: ratio_top)
  have x: "to_float (if max_level c = 1 then NInt 1 else NFloat (Fin 1)) = Inr (Fin 1)"
    by simp
  have "value_at pf c level
           = Inr (NFloat (fadd (Fin (of_int a)) (to_double (of_int (b - a) * 1))))"
    using value_at_int[OF assms(1-3,5) f x math_pow_base_one] .
  moreover have "to_double (of_int (b - a) * 1) = Fin (of_int (b - a))"
    using to_double_int[OF assms(5)] by simp
  moreover have "to_double (of_int a + of_int (b - a)) = Fin (of_int b)"
    using to_double_int[OF assms(4)] by simp
  ultimately show ?thesis by simp
qed




lemma small_bounds:
  "\<bar>0::int\<bar> \<le> 2 ^ 53" "\<bar>3::int\<bar> \<le> 2 ^ 53" "\<bar>5::int\<bar> \<le> 2 ^ 53" "\<bar>8::int\<bar> \<le> 2 ^ 53"
  "\<bar>10::int\<bar> \<le> 2 ^ 53" "\<bar>20::int\<bar> \<le> 2 ^ 53" "\<bar>70::int\<bar> \<le> 2 ^ 53" "\<bar>63::int\<bar> \<le> 2 ^ 53"
  "\<bar>7::int\<bar> \<le> 2 ^ 53" "\<bar>9007199254740992::int\<bar> \<le> 2 ^ 53"
  by simp_all

lemma to_double_2_53_plus_1: "to_double 9007199254740993 = Fin 9007199254740992"
proof -
  have "rnd 9007199254740993 \<le> 2 ^ 53" "- (2 ^ 53) \<le> rnd 9007199254740993"
    by (simp_all add: rnd_2_53_plus_1)
  then show ?thesis
    using to_double_finite[of 9007199254740993] by (simp add: rnd_2_53_plus_1)
qed

lemma grid_half_to_one:
  assumes "1 / 2 \<le> x" "x < 1"
  shows "grid x = - 53"
proof -
  have "expo x = - 1"
    using assms by (intro expo_eqI) (simp_all add: power_int_minus)
  then show ?thesis by (simp add: grid_def)
qed

lemma to_double_half_to_one:
  assumes "1 / 2 \<le> x" "x < 1"
  shows "to_double x = Fin (of_int (round_even (x * 9007199254740992)) / 9007199254740992)"
proof -
  have g: "grid x = - 53" using assms by (rule grid_half_to_one)
  have p: "(2::real) powi (- 53) = 1 / 9007199254740992"
    by (simp add: power_int_minus)
  have "x \<noteq> 0" using assms by simp
  then have r: "rnd x = of_int (round_even (x * 9007199254740992)) / 9007199254740992"
    unfolding rnd_def g p by simp
  have "of_int 0 \<le> x" "x \<le> of_int 1" using assms by simp_all
  from to_double_between(1)[OF this] show ?thesis by (simp add: r)
qed

lemma value_at_float_endpoints:
  assumes "m = 1 \<or> l = m"
  shows "value_at example_platform
       \<lparr>min_value = NFloat (Fin (3602879701896397 / 18014398509481984)),
        max_value = NFloat (Fin (8106479329266893 / 9007199254740992)),
        scale = Fin 1, max_level = m\<rparr> l
     = Inr (NFloat (Fin (8106479329266892 / 9007199254740992)))"
proof -
  define A :: real where "A = 3602879701896397 / 18014398509481984"
  define B :: real where "B = 8106479329266893 / 9007199254740992"
  define T :: real where "T = 6305039478318694 / 9007199254740992"
  define R :: real where "R = 8106479329266892 / 9007199254740992"
  have "to_double (B - A) = Fin T"
    unfolding A_def B_def T_def
    by (subst to_double_half_to_one) (simp_all add: round_even_def Let_def)
  then have 1: "fsub (Fin B) (Fin A) = Fin T" by (simp add: fsub_def)
  have "to_double T = Fin T"
    unfolding T_def
    by (subst to_double_half_to_one) (simp_all add: round_even_def Let_def)
  then have 2: "fmul (Fin T) (Fin 1) = Fin T" by simp
  have "to_double (A + T) = Fin R"
    unfolding A_def T_def R_def
    by (subst to_double_half_to_one) (simp_all add: round_even_def Let_def)
  then have 3: "fadd (Fin A) (Fin T) = Fin R" by simp
  have t: "m \<noteq> 1 \<Longrightarrow> int_truediv (l - 1) (m - 1) = Inr (Fin 1)"
    using assms ratio_top[of m] by auto
  have "value_at example_platform
       \<lparr>min_value = NFloat (Fin A), max_value = NFloat (Fin B), scale = Fin 1, max_level = m\<rparr> l
     = Inr (NFloat (Fin R))"
    using t by (simp add: value_at_def 1 2 3 del: fadd.simps fmul.simps)
  then show ?thesis unfolding A_def B_def R_def .
qed

text \<open>
  C2, as stated, fails: with \<open>max_level = 1\<close> the ratio is 1 and the curve
  \<open>Curve(10, 20, 1.0, 1)\<close> yields 20.0 at level 5, which is \<open>max_value\<close> and not
  \<open>min_value\<close>. With a large or a non-integer endpoint the result is rounded
  and is neither endpoint: \<open>Curve(0, 2 ^ 53 + 1, 1.0, 1)\<close> yields the float
  \<open>2 ^ 53\<close>, and \<open>Curve(0.2, 0.9, 1.0, 1)\<close>, whose endpoints are the floats
  \<open>3602879701896397 / 2 ^ 54\<close> and \<open>8106479329266893 / 2 ^ 53\<close>, yields
  \<open>8106479329266892 / 2 ^ 53\<close>.
\<close>

theorem C2_value_at_max_level_one_counterexample:
  "Curve_init (NInt 10) (Some (NInt 20)) (Fin 1) 1
     = Inr \<lparr>min_value = NInt 10, max_value = NInt 20, scale = Fin 1, max_level = 1\<rparr>
   \<and> value_at example_platform
         \<lparr>min_value = NInt 10, max_value = NInt 20, scale = Fin 1, max_level = 1\<rparr> 5
       = Inr (NFloat (Fin 20))
   \<and> \<not> py_eq (NFloat (Fin 20)) (NInt 10)
   \<and> value_at example_platform
         \<lparr>min_value = NInt 0, max_value = NInt 9007199254740993, scale = Fin 1, max_level = 1\<rparr> 7
       = Inr (NFloat (Fin 9007199254740992))
   \<and> \<not> py_eq (NFloat (Fin 9007199254740992)) (NInt 0)
   \<and> \<not> py_eq (NFloat (Fin 9007199254740992)) (NInt 9007199254740993)
   \<and> value_at example_platform
         \<lparr>min_value = NFloat (Fin (3602879701896397 / 18014398509481984)),
          max_value = NFloat (Fin (8106479329266893 / 9007199254740992)),
          scale = Fin 1, max_level = 1\<rparr> 5
       = Inr (NFloat (Fin (8106479329266892 / 9007199254740992)))
   \<and> \<not> py_eq (NFloat (Fin (8106479329266892 / 9007199254740992)))
           (NFloat (Fin (3602879701896397 / 18014398509481984)))
   \<and> \<not> py_eq (NFloat (Fin (8106479329266892 / 9007199254740992)))
           (NFloat (Fin (8106479329266893 / 9007199254740992)))"
proof -
  let ?c = "\<lparr>min_value = NInt 10, max_value = NInt 20, scale = Fin 1, max_level = 1\<rparr>"
  have 1: "value_at example_platform ?c 5 = Inr (NFloat (Fin (of_int 20)))"
    by (rule value_at_int_ratio_one[where a = 10]) (simp_all add: small_bounds)
  have 2: "value_at example_platform
         \<lparr>min_value = NInt 0, max_value = NInt 9007199254740993, scale = Fin 1, max_level = 1\<rparr> 7
       = Inr (NFloat (Fin 9007199254740992))"
    using to_double_int[of 9007199254740992] to_double_int[of 1]
    by (simp add: value_at_def to_double_2_53_plus_1 small_bounds)
  have 3: "\<not> py_eq (NFloat (Fin (8106479329266892 / 9007199254740992)))
           (NFloat (Fin (3602879701896397 / 18014398509481984)))"
    "\<not> py_eq (NFloat (Fin (8106479329266892 / 9007199254740992)))
           (NFloat (Fin (8106479329266893 / 9007199254740992)))"
    by simp_all
  show ?thesis using 1 2 3 value_at_float_endpoints[of 1 5] by (simp add: Curve_init_def)
qed

text \<open>
  C2, amended: for every Curve with \<open>max_level = 1\<close> the interpolation ratio is
  the integer 1 and nothing is divided, so \<open>value_at(level)\<close> is the same for
  every level. When \<open>min_value\<close> and \<open>max_value\<close> are integers whose magnitudes and
  whose difference are at most \<open>2 ^ 53\<close>, \<open>value_at(level)\<close> raises nothing and
  equals \<open>max_value\<close>; it equals \<open>min_value\<close> only when the two endpoints
  coincide.
\<close>

theorem C2_value_at_max_level_one:
  "max_level c = 1 \<Longrightarrow>
     value_at pf c level = value_at pf c level'
     \<and> (min_value c = NInt a \<and> max_value c = NInt b
          \<and> \<bar>a\<bar> \<le> 2 ^ 53 \<and> \<bar>b\<bar> \<le> 2 ^ 53 \<and> \<bar>b - a\<bar> \<le> 2 ^ 53
        \<longrightarrow> value_at pf c level = Inr (NFloat (Fin (of_int b)))
            \<and> py_eq (NFloat (Fin (of_int b))) (max_value c)
            \<and> (py_eq (NFloat (Fin (of_int b))) (min_value c) \<longleftrightarrow> b = a))"
proof -
  assume m: "max_level c = 1"
  have "value_at pf c level = value_at pf c level'"
    using m by (simp add: value_at_def)
  moreover have "value_at pf c level = Inr (NFloat (Fin (of_int b)))"
    if "min_value c = NInt a" "max_value c = NInt b"
      "\<bar>a\<bar> \<le> 2 ^ 53" "\<bar>b\<bar> \<le> 2 ^ 53" "\<bar>b - a\<bar> \<le> 2 ^ 53"
    using value_at_int_ratio_one[OF that, of level pf] m by simp
  ultimately show ?thesis by auto
qed

theorem C2_value_at_max_level_one_witness:
  "max_level \<lparr>min_value = NInt 10, max_value = NInt 20, scale = Fin 1, max_level = 1\<rparr> = 1
   \<and> value_at example_platform
         \<lparr>min_value = NInt 10, max_value = NInt 20, scale = Fin 1, max_level = 1\<rparr> 7
       = Inr (NFloat (Fin 20))
   \<and> value_at example_platform
         \<lparr>min_value = NInt 10, max_value = NInt 20, scale = Fin 1, max_level = 1\<rparr> 7
       = value_at example_platform
         \<lparr>min_value = NInt 10, max_value = NInt 20, scale = Fin 1, max_level = 1\<rparr> 3"
  using C2_value_at_max_level_one[of
      "\<lparr>min_value = NInt 10, max_value = NInt 20, scale = Fin 1, max_level = 1\<rparr>"
      example_platform 7 3 10 20]
  by (auto simp: small_bounds)








section \<open>Properties of unflatten\<close>

lemma py_index_append_Cons: "py_index (pre @ x # post) (int (length pre)) = Some (length pre)"
  by (simp add: py_index_def)

lemma py_slice_segment:
  "py_slice (pre @ x # data @ post) (int (length pre) + 1) (int (length pre) + 1 + int (length data))
     = data"
proof -
  have a: "slice_bound (length (pre @ x # data @ post)) (int (length pre) + 1) = length pre + 1"
    by (auto simp: slice_bound_def)
  have b: "slice_bound (length (pre @ x # data @ post)) (int (length pre) + 1 + int (length data))
             = length pre + 1 + length data"
    by (auto simp: slice_bound_def)
  show ?thesis unfolding py_slice_def a b by (simp add: Let_def)
qed

lemma py_del_slice_segment:
  "py_del_slice (pre @ x # data @ post) (int (length pre) + 1)
       (int (length pre) + 1 + int (length data))
     = pre @ x # post"
proof -
  have a: "slice_bound (length (pre @ x # data @ post)) (int (length pre) + 1) = length pre + 1"
    by (auto simp: slice_bound_def)
  have b: "slice_bound (length (pre @ x # data @ post)) (int (length pre) + 1 + int (length data))
             = length pre + 1 + length data"
    by (auto simp: slice_bound_def)
  show ?thesis unfolding py_del_slice_def a b by (simp add: Let_def)
qed

lemma unflatten_segment:
  assumes "n \<noteq> 0" "int (length data) = width * n"
  shows "unflatten (pre @ PInt n # data @ post) (int (length pre)) width True
           = Inr (pre @ PList data # post)"
    and "unflatten (pre @ PInt n # data @ post) (int (length pre)) width False
           = Inr (pre @ PInt n # post)"
  using assms py_slice_segment[of pre "PInt n" data post]
    py_del_slice_segment[of pre "PInt n" data post]
  by (simp_all add: unflatten_def py_index_append_Cons Let_def)

text \<open>
  C3, as stated, fails on two points. In replace mode the slot receives the flat
  list of the 9 tokens, not 3 tuples of 3. In delete mode the count slot stays:
  the field at index 10 moves to index 1, a shift of 9, not 10.
\<close>

theorem C3_unflatten_counterexample:
  "unflatten [PInt 3, PInt 11, PInt 12, PInt 13, PInt 21, PInt 22, PInt 23,
              PInt 31, PInt 32, PInt 33, PStr ''next''] 0 3 True
     = Inr [PList [PInt 11, PInt 12, PInt 13, PInt 21, PInt 22, PInt 23,
                   PInt 31, PInt 32, PInt 33], PStr ''next'']
   \<and> unflatten [PInt 3, PInt 11, PInt 12, PInt 13, PInt 21, PInt 22, PInt 23,
                PInt 31, PInt 32, PInt 33, PStr ''next''] 0 3 False
     = Inr [PInt 3, PStr ''next'']"
  using unflatten_segment[of 3
      "[PInt 11, PInt 12, PInt 13, PInt 21, PInt 22, PInt 23, PInt 31, PInt 32, PInt 33]"
      3 "[]" "[PStr ''next'']"]
  by simp

text \<open>
  C3, amended: for every token array, calling unflatten at an index holding
  count 3 with width 3 over 9 following tokens puts the flat list of those 9
  tokens at that slot in replace mode and leaves the count in its slot in
  delete mode; in both modes the fields before the slot are unchanged and every
  field after the segment shifts toward the front by exactly 9 positions.
\<close>

theorem C3_unflatten_count3_width3:
  "length data = 9 \<Longrightarrow>
     unflatten (pre @ PInt 3 # data @ post) (int (length pre)) 3 True
       = Inr (pre @ PList data # post)
     \<and> unflatten (pre @ PInt 3 # data @ post) (int (length pre)) 3 False
         = Inr (pre @ PInt 3 # post)
     \<and> (\<forall>j < length post.
           (pre @ PList data # post) ! (length pre + 10 + j - 9)
             = (pre @ PInt 3 # data @ post) ! (length pre + 10 + j)
         \<and> (pre @ PInt 3 # post) ! (length pre + 10 + j - 9)
             = (pre @ PInt 3 # data @ post) ! (length pre + 10 + j))"
proof -
  assume len: "length data = 9"
  have seg: "unflatten (pre @ PInt 3 # data @ post) (int (length pre)) 3 True
               = Inr (pre @ PList data # post)"
       "unflatten (pre @ PInt 3 # data @ post) (int (length pre)) 3 False
               = Inr (pre @ PInt 3 # post)"
    using unflatten_segment[of 3 data 3 pre post] len by simp_all
  have shift: "(pre @ y # post) ! (length pre + 10 + j - 9)
                 = (pre @ PInt 3 # data @ post) ! (length pre + 10 + j)" for y j
  proof -
    have "(pre @ y # post) ! (length pre + 10 + j - 9) = post ! j"
      by (simp add: nth_append)
    moreover have "(pre @ PInt 3 # data @ post) ! (length pre + 10 + j) = post ! j"
      using len by (simp add: nth_append)
    ultimately show ?thesis by simp
  qed
  show ?thesis using seg shift by simp
qed

theorem C3_unflatten_count3_width3_witness:
  "unflatten [PStr ''id'', PInt 3, PInt 11, PInt 12, PInt 13, PInt 21, PInt 22, PInt 23,
              PInt 31, PInt 32, PInt 33, PStr ''next''] 1 3 True
     = Inr [PStr ''id'', PList [PInt 11, PInt 12, PInt 13, PInt 21, PInt 22, PInt 23,
                   PInt 31, PInt 32, PInt 33], PStr ''next'']
   \<and> unflatten [PStr ''id'', PInt 3, PInt 11, PInt 12, PInt 13, PInt 21, PInt 22, PInt 23,
              PInt 31, PInt 32, PInt 33, PStr ''next''] 1 3 False
     = Inr [PStr ''id'', PInt 3, PStr ''next'']"
  using C3_unflatten_count3_width3[of
      "[PInt 11, PInt 12, PInt 13, PInt 21, PInt 22, PInt 23, PInt 31, PInt 32, PInt 33]"
      "[PStr ''id'']" "[PStr ''next'']"]
  by simp

section \<open>Properties of the Bonus decoder\<close>

lemma external_simps [simp]:
  "external (Inl msg) = Inl (External msg)"
  "external (Inr x) = Inr x"
  by (simp_all add: external_def)

lemma and_then_eq_Inl:
  "and_then m f = Inl e \<longleftrightarrow> m = Inl e \<or> (\<exists>x. m = Inr x \<and> f x = Inl e)"
  by (cases m) simp_all

lemma external_not_UnexpectedKeys: "external r \<noteq> Inl (UnexpectedKeys S)"
  by (cases r) simp_all

lemma dict_item_not_UnexpectedKeys: "dict_item d k \<noteq> Inl (UnexpectedKeys S)"
  by (simp add: dict_item_def split: option.splits)

lemma py_int_not_UnexpectedKeys: "py_int p v \<noteq> Inl (UnexpectedKeys S)"
  by (cases v) (simp_all split: option.splits)

lemma decode_fields_not_UnexpectedKeys:
  "decode_fields env raw server \<noteq> Inl (UnexpectedKeys S)"
  by (auto simp: decode_fields_def and_then_eq_Inl external_not_UnexpectedKeys
      dict_item_not_UnexpectedKeys py_int_not_UnexpectedKeys split: option.splits)

lemma apply_mod_fn_not_UnexpectedKeys:
  "apply_mod_fn env fn v \<noteq> Inl (UnexpectedKeys S)"
  by (cases fn)
    (auto simp: apply_mod_fn_def and_then_eq_Inl external_not_UnexpectedKeys
      py_int_not_UnexpectedKeys)

lemma Bonus_init_recognized_keys:
  assumes "set (map fst raw) \<subseteq> key_set"
  shows "Bonus_init env raw server \<noteq> Inl (UnexpectedKeys S)"
  using assms
  by (auto simp: Bonus_init_def Let_def and_then_eq_Inl decode_fields_not_UnexpectedKeys
      dict_item_not_UnexpectedKeys py_int_not_UnexpectedKeys apply_mod_fn_not_UnexpectedKeys
      split: option.splits)

lemma key_set_eq:
  "key_set = {''s'', ''e'', ''b'', ''i'', ''a'', ''d'', ''m'', ''f''}"
  by (simp add: key_set_def keys_def)

text \<open>
  C4: a raw bonus object with any key outside the recognized tag set
  \<open>{s, e, b, i, a, d, m, f}\<close> makes the decoder raise the unexpected-keys error,
  which carries exactly the set of unrecognized keys; when every key is
  recognized the decoder never raises this error.
\<close>

theorem C4_unexpected_keys:
  "key_set = {''s'', ''e'', ''b'', ''i'', ''a'', ''d'', ''m'', ''f''}
   \<and> (\<not> set (map fst raw) \<subseteq> key_set \<longrightarrow>
        Bonus_init env raw server = Inl (UnexpectedKeys (set (map fst raw) - key_set)))
   \<and> (set (map fst raw) \<subseteq> key_set \<longrightarrow>
        (\<forall>S. Bonus_init env raw server \<noteq> Inl (UnexpectedKeys S)))"
  using Bonus_init_recognized_keys[of raw env server] key_set_eq
  by (simp add: Bonus_init_def)

theorem C4_unexpected_keys_witness:
  "Bonus_init example_env [(''x'', PInt 1)] ''na'' = Inl (UnexpectedKeys {''x''})
   \<and> Bonus_init example_env [(''s'', PStr ''1000''), (''x'', PInt 1), (''y'', PNone)] ''na''
       = Inl (UnexpectedKeys {''x'', ''y''})
   \<and> Bonus_init example_env [(''b'', PNone)] ''na'' \<noteq> Inl (UnexpectedKeys {})"
proof -
  have x: "\<not> set (map fst [(''x'', PInt 1)]) \<subseteq> key_set"
    "set (map fst [(''x'', PInt 1)]) - key_set = {''x''}"
    by (simp_all add: key_set_eq)
  have xy: "\<not> set (map fst [(''s'', PStr ''1000''), (''x'', PInt 1), (''y'', PNone)]) \<subseteq> key_set"
    "set (map fst [(''s'', PStr ''1000''), (''x'', PInt 1), (''y'', PNone)]) - key_set
       = {''x'', ''y''}"
    by (simp_all add: key_set_eq)
  have b: "set (map fst [(''b'', PNone)]) \<subseteq> key_set"
    by (simp add: key_set_eq)
  have "Bonus_init example_env [(''x'', PInt 1)] ''na'' = Inl (UnexpectedKeys {''x''})"
    using C4_unexpected_keys[of "[(''x'', PInt 1)]" example_env "''na''"] x by metis
  moreover have "Bonus_init example_env [(''s'', PStr ''1000''), (''x'', PInt 1), (''y'', PNone)] ''na''
       = Inl (UnexpectedKeys {''x'', ''y''})"
    using C4_unexpected_keys[of "[(''s'', PStr ''1000''), (''x'', PInt 1), (''y'', PNone)]"
      example_env "''na''"] xy by metis
  moreover have "Bonus_init example_env [(''b'', PNone)] ''na'' \<noteq> Inl (UnexpectedKeys {})"
    using C4_unexpected_keys[of "[(''b'', PNone)]" example_env "''na''"] b by metis
  ultimately show ?thesis by blast
qed

lemma types_get_unknown:
  "bid \<notin> set (map fst types) \<Longrightarrow>
     types_get bid = \<lparr>name = ''unknown_id:'' @ str_int bid, mod_fn = None\<rparr>"
  by (simp add: types_get_def map_of_eq_None_iff[THEN iffD2])

lemma str_int_999: "str_int 999 = ''999''"
  by code_simp

text \<open>
  C5: for a raw bonus object whose category id is outside the category table,
  the lookup of the category does not make decoding fail. Whenever the keys are
  recognized, the other fields decode and \<open>b\<close> converts to an integer id that is
  not in the table, decoding succeeds with \<open>bonus_name = 'unknown_id:<id>'\<close>, the
  raw id as \<open>bonus_id\<close>, and the raw value (if present) passed through
  untransformed.
\<close>

theorem C5_unknown_category_id:
  assumes "set (map fst raw) \<subseteq> key_set"
    and "decode_fields env raw server = Inr fs"
    and "map_of raw ''b'' = Some b"
    and "py_int (int_of_str env) b = Inr bid"
    and "bid \<notin> set (map fst types)"
  shows "Bonus_init env raw server =
           Inr (bonus_fields.extend fs
                  \<lparr> bonus_value = (case map_of raw ''a'' of None \<Rightarrow> PNone | Some a \<Rightarrow> a),
                    bonus_name = ''unknown_id:'' @ str_int bid,
                    bonus_id = bid \<rparr>)"
  using assms types_get_unknown[of bid]
  by (simp add: Bonus_init_def dict_item_def split: option.splits)

theorem C5_unknown_category_id_witness:
  "Bonus_init example_env
      [(''s'', PStr ''1000''), (''e'', PStr ''2000''), (''b'', PInt 999), (''a'', PInt 150)] ''na''
     = Inr \<lparr> start_time_str = ''1000'', start_timestamp = 1000,
             end_time_str = ''2000'', end_timestamp = 2000,
             dungeon_id = PNone, dungeon_floor_id = PNone, egg_machine_id = None,
             message = None, clean_message = None,
             bonus_value = PInt 150, bonus_name = ''unknown_id:999'', bonus_id = 999 \<rparr>"
proof -
  let ?raw = "[(''s'', PStr ''1000''), (''e'', PStr ''2000''), (''b'', PInt 999), (''a'', PInt 150)]"
  have k: "set (map fst ?raw) \<subseteq> key_set"
    by (simp add: key_set_eq)
  have f: "decode_fields example_env ?raw ''na''
             = Inr \<lparr> start_time_str = ''1000'', start_timestamp = 1000,
                     end_time_str = ''2000'', end_timestamp = 2000,
                     dungeon_id = PNone, dungeon_floor_id = PNone, egg_machine_id = None,
                     message = None, clean_message = None \<rparr>"
    by (simp add: decode_fields_def dict_item_def example_env_def)
  have b: "map_of ?raw ''b'' = Some (PInt 999)"
    by simp
  have i: "py_int (int_of_str example_env) (PInt 999) = Inr 999"
    by simp
  have u: "(999::int) \<notin> set (map fst types)"
    by (simp add: types_def)
  show ?thesis
    using C5_unknown_category_id[OF k f b i u]
    by (simp add: str_int_999 bonus_fields.defs)
qed

section \<open>Properties of the store wrapper\<close>

lemma execute_eq:
  "execute run st kind q =
     (snd (run (connection st) q),
      st\<lparr>connection := fst (run (connection st) q), executed := executed st @ [(kind, q)]\<rparr>)"
  by (simp add: execute_def split: prod.splits)

lemma writes_simps [simp]:
  "writes (st\<lparr>executed := executed st @ [(Read, q)]\<rparr>) = writes st"
  "writes (st\<lparr>executed := executed st @ [(Write, q)]\<rparr>) = writes st @ [q]"
  "writes (st\<lparr>connection := db\<rparr>) = writes st"
  "writes (st\<lparr>rand_pos := p\<rparr>) = writes st"
  "writes (st\<lparr>connection := db, executed := executed st @ [(Read, q)]\<rparr>) = writes st"
  "writes (st\<lparr>connection := db, executed := executed st @ [(Write, q)]\<rparr>) = writes st @ [q]"
  by (simp_all add: writes_def)

lemma check_existing_eq:
  "check_existing run st q =
     (let res = snd (run (connection st) q)
      in if rowcount res > 1 then Inl (GotTooManyResults (rowcount res) q)
         else Inr (rowcount res \<noteq> 0),
      st\<lparr>connection := fst (run (connection st) q), executed := executed st @ [(Read, q)]\<rparr>)"
  by (simp add: check_existing_def execute_eq Let_def)

lemma get_single_value_state:
  "snd (get_single_value run st q op foe) =
     st\<lparr>connection := fst (run (connection st) q), executed := executed st @ [(Read, q)]\<rparr>"
  by (simp add: get_single_value_def execute_eq Let_def split: list.splits)

lemma get_single_value_many:
  "length (rows (snd (run (connection st) q))) > 1 \<Longrightarrow>
     fst (get_single_value run st q op foe)
       = Inl (GotTooManyResults (length (rows (snd (run (connection st) q)))) q)"
  by (auto simp: get_single_value_def execute_eq Let_def)

lemma get_single_value_empty:
  "rows (snd (run (connection st) q)) = [] \<Longrightarrow>
     fst (get_single_value run st q op False) = Inr None"
  by (simp add: get_single_value_def execute_eq Let_def)

lemma get_single_value_columns:
  "rows (snd (run (connection st) q)) = [r] \<Longrightarrow> length r > 1 \<Longrightarrow>
     fst (get_single_value run st q op foe) = Inl (TooManyColumns q)"
  by (simp add: get_single_value_def execute_eq Let_def)

lemma check_existing_value_columns:
  "rowcount (snd (run (connection st) q)) = 1 \<Longrightarrow>
   rows (snd (run (connection st) q)) = r # rest \<Longrightarrow> length r > 1 \<Longrightarrow>
     fst (check_existing_value run st q) = Inr (PList (map snd r))"
  by (simp add: check_existing_value_def execute_eq Let_def)

lemma insert_item_dry:
  "dry_run st \<Longrightarrow>
     insert_item run st q =
       (Inr (- 99999 + int (rand_seq st (rand_pos st) mod 99998)),
        st\<lparr>rand_pos := rand_pos st + 1\<rparr>)"
  by (simp add: insert_item_def randrange_def)

lemma insert_item_wet:
  "\<not> dry_run st \<Longrightarrow>
     insert_item run st q =
       (let res = snd (run (connection st) q)
        in if length (rows res) > 0 then Inl (TooManyResultsForInsert (length (rows res)) q)
           else Inr (lastrowid res),
        st\<lparr>connection := fst (run (connection st) q), executed := executed st @ [(Write, q)]\<rparr>)"
  by (simp add: insert_item_def execute_eq Let_def)

lemma insert_new_dry:
  "dry_run st \<Longrightarrow>
     insert_new ops run st item =
       (Inr (Some (- 99999 + int (rand_seq st (rand_pos st) mod 99998))),
        st\<lparr>rand_pos := rand_pos st + 1\<rparr>)"
  by (simp add: insert_new_def insert_item_dry)

lemma update_if_needed_dry:
  assumes "dry_run st"
  shows "dry_run (snd (update_if_needed ops run st item key))"
    and "executed (snd (update_if_needed ops run st item key))
           = executed st @ [(Read, needs_update_sql ops item)]"
  using assms
  by (simp_all add: update_if_needed_def check_existing_eq insert_item_dry Let_def)

lemma update_if_needed_many:
  assumes "rowcount (snd (run (connection st) (needs_update_sql ops item))) > 1"
  shows "update_if_needed ops run st item key =
           (Inl (GotTooManyResults (rowcount (snd (run (connection st) (needs_update_sql ops item))))
                   (needs_update_sql ops item)),
            st\<lparr>connection := fst (run (connection st) (needs_update_sql ops item)),
               executed := executed st @ [(Read, needs_update_sql ops item)]\<rparr>)"
  using assms by (simp add: update_if_needed_def check_existing_eq Let_def)

lemma update_if_needed_same:
  assumes "rowcount (snd (run (connection st) (needs_update_sql ops item))) = 1"
  shows "update_if_needed ops run st item key =
           (Inr key,
            st\<lparr>connection := fst (run (connection st) (needs_update_sql ops item)),
               executed := executed st @ [(Read, needs_update_sql ops item)]\<rparr>)"
  using assms by (simp add: update_if_needed_def check_existing_eq Let_def)

lemma insert_new_wet:
  assumes "\<not> dry_run st" "rows (snd (run (connection st) (insert_sql ops item))) = []"
  shows "insert_new ops run st item =
           (Inr (Some (lastrowid (snd (run (connection st) (insert_sql ops item))))),
            st\<lparr>connection := fst (run (connection st) (insert_sql ops item)),
               executed := executed st @ [(Write, insert_sql ops item)]\<rparr>)"
  using assms by (simp add: insert_new_def insert_item_wet Let_def)

text \<open>
  C8, as stated, fails for \<open>check_existing_value\<close>: on a row with two columns it
  returns the list of both values instead of raising.
\<close>

theorem C8_column_arity_counterexample:
  "rows (snd (example_store 1 ''SELECT id, name'')) = [ [(''id'', PInt 1), (''name'', PStr ''x'')] ]
   \<and> fst (check_existing_value example_store (example_wrapper False 1) ''SELECT id, name'')
     = Inr (PList [PInt 1, PStr ''x''])"
  by (simp add: check_existing_value_def execute_eq example_store_def example_wrapper_def)

text \<open>
  C8, amended: when a query yields exactly one row and that row has more than
  one column, \<open>get_single_value\<close> raises the column-arity error instead of
  returning a value, whereas \<open>check_existing_value\<close> returns the list of all values
  of the first row.
\<close>

theorem C8_column_arity:
  "(rows (snd (run (connection st) q)) = [r] \<and> length r > 1 \<longrightarrow>
      fst (get_single_value run st q op fail_on_empty) = Inl (TooManyColumns q))
   \<and> (rowcount (snd (run (connection st) q)) = 1
        \<and> rows (snd (run (connection st) q)) = r # rest \<and> length r > 1 \<longrightarrow>
      fst (check_existing_value run st q) = Inr (PList (map snd r)))"
  using get_single_value_columns[of run st q r op fail_on_empty]
    check_existing_value_columns[of run st q r rest]
  by blast

theorem C8_column_arity_witness:
  "fst (get_single_value example_store (example_wrapper False 1) ''SELECT id, name''
          (py_int (\<lambda>s. None)) True)
     = Inl (TooManyColumns ''SELECT id, name'')
   \<and> fst (check_existing_value example_store (example_wrapper False 1) ''SELECT id, name'')
     = Inr (PList (map snd [(''id'', PInt 1), (''name'', PStr ''x'')]))"
proof -
  have r: "rows (snd (example_store (connection (example_wrapper False 1)) ''SELECT id, name''))
             = [ [(''id'', PInt 1), (''name'', PStr ''x'')] ]"
    "rowcount (snd (example_store (connection (example_wrapper False 1)) ''SELECT id, name'')) = 1"
    by (simp_all add: example_store_def example_wrapper_def)
  show ?thesis
    using C8_column_arity[of example_store "example_wrapper False 1" "''SELECT id, name''"
        "[(''id'', PInt 1), (''name'', PStr ''x'')]" "py_int (\<lambda>s. None)" True "[]"] r
    by simp
qed

lemma get_single_value_stateD:
  "get_single_value run st q op foe = (r, st1) \<Longrightarrow>
     st1 = st\<lparr>connection := fst (run (connection st) q), executed := executed st @ [(Read, q)]\<rparr>"
  using get_single_value_state[of run st q op foe] by simp

lemma update_if_needed_dryD:
  "dry_run st \<Longrightarrow> update_if_needed ops run st item key = (r, st1) \<Longrightarrow>
     dry_run st1 \<and> executed st1 = executed st @ [(Read, needs_update_sql ops item)]"
  using update_if_needed_dry[of st ops run item key] by simp

lemma writes_append_reads:
  "executed st' = executed st @ new \<Longrightarrow> \<forall>x \<in> set new. fst x = Read \<Longrightarrow> writes st' = writes st"
  by (simp add: writes_def)

lemma dry_key_bounds:
  "- 99999 \<le> - 99999 + int (r mod 99998) \<and> - 99999 + int (r mod 99998) < - 1"
proof -
  have "r mod 99998 < 99998" by simp
  then show ?thesis by linarith
qed

lemma insert_or_update_dry_alt:
  assumes "dry_run st" "uses_alternate_key_lookup ops item"
    and "insert_or_update ops run parse st item = (r, item', st')"
  shows "dry_run st' \<and>
         (\<exists>new. executed st' = executed st @ new
            \<and> set new \<subseteq> {(Read, exists_sql ops item), (Read, needs_update_sql ops item')})"
proof (cases "get_single_value run st (exists_sql ops item) (py_int parse) False")
  case (Pair g st1)
  note st1 = get_single_value_stateD[OF Pair]
  have d1: "dry_run st1" using st1 assms(1) by simp
  show ?thesis
  proof (cases g)
    case (Inl e)
    with Pair assms st1 show ?thesis
      by (auto simp: insert_or_update_def)
  next
    case (Inr key)
    show ?thesis
    proof (cases "falsy key")
      case True
      with Pair Inr assms st1 d1 show ?thesis
        by (auto simp: insert_or_update_def Let_def insert_new_dry)
    next
      case False
      obtain r2 st2 where u:
        "update_if_needed ops run st1 (set_key_value ops item key) key = (r2, st2)"
        by (cases "update_if_needed ops run st1 (set_key_value ops item key) key")
      from update_if_needed_dryD[OF d1 u] Pair Inr False assms st1 u show ?thesis
        by (auto simp: insert_or_update_def Let_def)
    qed
  qed
qed

lemma insert_or_update_dry_fk:
  assumes "dry_run st" "\<not> uses_alternate_key_lookup ops item"
    and "\<not> uses_local_primary_key ops item"
    and "insert_or_update ops run parse st item = (r, item', st')"
  shows "dry_run st' \<and>
         (\<exists>new. executed st' = executed st @ new
            \<and> set new \<subseteq> {(Read, exists_sql ops item), (Read, needs_update_sql ops item')})"
proof -
  let ?st1 = "st\<lparr>connection := fst (run (connection st) (exists_sql ops item)),
                 executed := executed st @ [(Read, exists_sql ops item)]\<rparr>"
  have d1: "dry_run ?st1" using assms(1) by simp
  obtain r2 st2 where u:
    "update_if_needed ops run ?st1 item (key_value ops item) = (r2, st2)"
    by (cases "update_if_needed ops run ?st1 item (key_value ops item)")
  from update_if_needed_dryD[OF d1 u] assms u show ?thesis
    by (auto simp: insert_or_update_def Let_def check_existing_eq insert_new_dry
        split: if_splits)
qed

lemma insert_or_update_dry_local:
  assumes "dry_run st" "\<not> uses_alternate_key_lookup ops item"
    and "uses_local_primary_key ops item"
    and "insert_or_update ops run parse st item = (r, item', st')"
  shows "dry_run st' \<and>
         (\<exists>new. executed st' = executed st @ new
            \<and> set new \<subseteq> {(Read, exists_sql ops item), (Read, needs_update_sql ops item')})"
proof -
  obtain r2 st2 where u:
    "update_if_needed ops run st item (key_value ops item) = (r2, st2)"
    by (cases "update_if_needed ops run st item (key_value ops item)")
  from update_if_needed_dryD[OF assms(1) u] assms u show ?thesis
    by (auto simp: insert_or_update_def Let_def insert_new_dry split: if_splits)
qed

lemma insert_or_update_dry:
  assumes "dry_run st"
    and "insert_or_update ops run parse st item = (r, item', st')"
  shows "dry_run st' \<and> writes st' = writes st \<and>
         (\<exists>new. executed st' = executed st @ new
            \<and> set new \<subseteq> {(Read, exists_sql ops item), (Read, needs_update_sql ops item')})"
proof -
  have *: "dry_run st' \<and>
         (\<exists>new. executed st' = executed st @ new
            \<and> set new \<subseteq> {(Read, exists_sql ops item), (Read, needs_update_sql ops item')})"
    using insert_or_update_dry_alt[OF assms(1) _ assms(2)]
      insert_or_update_dry_fk[OF assms(1) _ _ assms(2)]
      insert_or_update_dry_local[OF assms(1) _ _ assms(2)]
    by blast
  then obtain new where new: "executed st' = executed st @ new"
    "set new \<subseteq> {(Read, exists_sql ops item), (Read, needs_update_sql ops item')}"
    by blast
  then have "\<forall>x \<in> set new. fst x = Read" by auto
  with new(1) have "writes st' = writes st" by (rule writes_append_reads)
  with * show ?thesis by simp
qed

lemma insert_or_update_dry_inserts:
  assumes "dry_run st"
  shows "\<not> uses_alternate_key_lookup ops item \<Longrightarrow> uses_local_primary_key ops item \<Longrightarrow>
           needs_insert ops item \<Longrightarrow>
           fst (insert_or_update ops run parse st item)
             = Inr (Some (- 99999 + int (rand_seq st (rand_pos st) mod 99998)))"
    and "\<not> uses_alternate_key_lookup ops item \<Longrightarrow> \<not> uses_local_primary_key ops item \<Longrightarrow>
           rowcount (snd (run (connection st) (exists_sql ops item))) = 0 \<Longrightarrow>
           fst (insert_or_update ops run parse st item)
             = Inr (Some (- 99999 + int (rand_seq st (rand_pos st) mod 99998)))"
    and "uses_alternate_key_lookup ops item \<Longrightarrow>
           rows (snd (run (connection st) (exists_sql ops item))) = [] \<Longrightarrow>
           fst (insert_or_update ops run parse st item)
             = Inr (Some (- 99999 + int (rand_seq st (rand_pos st) mod 99998)))"
proof -
  show "\<not> uses_alternate_key_lookup ops item \<Longrightarrow> uses_local_primary_key ops item \<Longrightarrow>
           needs_insert ops item \<Longrightarrow>
           fst (insert_or_update ops run parse st item)
             = Inr (Some (- 99999 + int (rand_seq st (rand_pos st) mod 99998)))"
    using assms by (simp add: insert_or_update_def insert_new_dry)
  show "\<not> uses_alternate_key_lookup ops item \<Longrightarrow> \<not> uses_local_primary_key ops item \<Longrightarrow>
           rowcount (snd (run (connection st) (exists_sql ops item))) = 0 \<Longrightarrow>
           fst (insert_or_update ops run parse st item)
             = Inr (Some (- 99999 + int (rand_seq st (rand_pos st) mod 99998)))"
    using assms by (simp add: insert_or_update_def check_existing_eq insert_new_dry)
  show "uses_alternate_key_lookup ops item \<Longrightarrow>
           rows (snd (run (connection st) (exists_sql ops item))) = [] \<Longrightarrow>
           fst (insert_or_update ops run parse st item)
             = Inr (Some (- 99999 + int (rand_seq st (rand_pos st) mod 99998)))"
  proof -
    assume a: "uses_alternate_key_lookup ops item"
      "rows (snd (run (connection st) (exists_sql ops item))) = []"
    obtain g st1 where g: "get_single_value run st (exists_sql ops item) (py_int parse) False = (g, st1)"
      by (cases "get_single_value run st (exists_sql ops item) (py_int parse) False")
    have "g = Inr None"
      using get_single_value_empty[of run st "exists_sql ops item" "py_int parse"] a(2) g by simp
    moreover note get_single_value_stateD[OF g]
    ultimately show ?thesis
      using a g assms by (simp add: insert_or_update_def insert_new_dry falsy_def)
  qed
qed

text \<open>
  C6: in dry-run mode \<open>insert_item\<close> executes nothing and returns a synthetic key
  \<open>k\<close> with \<open>-99999 \<le> k < -1\<close>; \<open>insert_or_update\<close> issues no write for any record
  and strategy (the only statements it executes are the reads \<open>exists_sql\<close> and
  \<open>needs_update_sql\<close> of the record), and on each of the three paths that insert
  it returns such a synthetic key.
\<close>

theorem C6_dry_run_no_writes:
  "dry_run st \<Longrightarrow>
     (\<exists>k. insert_item run st q = (Inr k, st\<lparr>rand_pos := rand_pos st + 1\<rparr>)
          \<and> - 99999 \<le> k \<and> k < - 1)
     \<and> writes (snd (snd (insert_or_update ops run parse st item))) = writes st
     \<and> (\<exists>new. executed (snd (snd (insert_or_update ops run parse st item))) = executed st @ new
           \<and> set new \<subseteq>
               {(Read, exists_sql ops item),
                (Read, needs_update_sql ops (fst (snd (insert_or_update ops run parse st item))))})
     \<and> ((\<not> uses_alternate_key_lookup ops item \<and> uses_local_primary_key ops item
            \<and> needs_insert ops item)
          \<or> (\<not> uses_alternate_key_lookup ops item \<and> \<not> uses_local_primary_key ops item
            \<and> rowcount (snd (run (connection st) (exists_sql ops item))) = 0)
          \<or> (uses_alternate_key_lookup ops item
            \<and> rows (snd (run (connection st) (exists_sql ops item))) = [])
         \<longrightarrow> (\<exists>k. fst (insert_or_update ops run parse st item) = Inr (Some k)
                 \<and> - 99999 \<le> k \<and> k < - 1))"
proof -
  assume dry: "dry_run st"
  obtain r item' st' where iou: "insert_or_update ops run parse st item = (r, item', st')"
    by (cases "insert_or_update ops run parse st item")
  have "\<exists>k. insert_item run st q = (Inr k, st\<lparr>rand_pos := rand_pos st + 1\<rparr>)
          \<and> - 99999 \<le> k \<and> k < - 1"
    using insert_item_dry[OF dry, of run q] dry_key_bounds[of "rand_seq st (rand_pos st)"]
    by simp
  moreover have "writes st' = writes st
     \<and> (\<exists>new. executed st' = executed st @ new
           \<and> set new \<subseteq> {(Read, exists_sql ops item), (Read, needs_update_sql ops item')})"
    using insert_or_update_dry[OF dry iou] by simp
  moreover have "((\<not> uses_alternate_key_lookup ops item \<and> uses_local_primary_key ops item
            \<and> needs_insert ops item)
          \<or> (\<not> uses_alternate_key_lookup ops item \<and> \<not> uses_local_primary_key ops item
            \<and> rowcount (snd (run (connection st) (exists_sql ops item))) = 0)
          \<or> (uses_alternate_key_lookup ops item
            \<and> rows (snd (run (connection st) (exists_sql ops item))) = [])
         \<longrightarrow> (\<exists>k. r = Inr (Some k) \<and> - 99999 \<le> k \<and> k < - 1))"
    using insert_or_update_dry_inserts[OF dry, of ops item run parse] iou
      dry_key_bounds[of "rand_seq st (rand_pos st)"]
    by auto
  ultimately show ?thesis using iou by simp
qed

theorem C6_dry_run_no_writes_witness:
  "dry_run (example_wrapper True 0)
   \<and> fst (insert_item example_store (example_wrapper True 0) ''INSERT'') = Inr (- 99996)
   \<and> writes (snd (snd (insert_or_update example_ops example_store (\<lambda>s. None)
         (example_wrapper True 0) \<lparr>item_key = None, alternate = False, local_key = True\<rparr>))) = []
   \<and> fst (insert_or_update example_ops example_store (\<lambda>s. None)
         (example_wrapper True 0) \<lparr>item_key = None, alternate = False, local_key = True\<rparr>)
       = Inr (Some (- 99996))"
proof -
  have d: "dry_run (example_wrapper True 0)"
    by (simp add: example_wrapper_def)
  have w: "writes (example_wrapper True 0) = []"
    by (simp add: example_wrapper_def writes_def)
  have i: "fst (insert_item example_store (example_wrapper True 0) ''INSERT'') = Inr (- 99996)"
    by (simp add: insert_item_def randrange_def example_wrapper_def)
  have l: "\<not> uses_alternate_key_lookup example_ops
               \<lparr>item_key = None, alternate = False, local_key = True\<rparr>"
    "uses_local_primary_key example_ops \<lparr>item_key = None, alternate = False, local_key = True\<rparr>"
    "needs_insert example_ops \<lparr>item_key = None, alternate = False, local_key = True\<rparr>"
    by (simp_all add: example_ops_def falsy_def)
  have k: "fst (insert_or_update example_ops example_store (\<lambda>s. None)
         (example_wrapper True 0) \<lparr>item_key = None, alternate = False, local_key = True\<rparr>)
       = Inr (Some (- 99996))"
    using insert_or_update_dry_inserts(1)[OF d l, of example_store "\<lambda>s. None"]
    by (simp add: example_wrapper_def)
  show ?thesis
    using C6_dry_run_no_writes[OF d, of example_store "''INSERT''" example_ops "\<lambda>s. None"
        "\<lparr>item_key = None, alternate = False, local_key = True\<rparr>"] d w i k
    by simp
qed

lemma insert_or_update_many_alt:
  assumes "uses_alternate_key_lookup ops item"
    and "length (rows (snd (run (connection st) (exists_sql ops item)))) > 1"
  shows "insert_or_update ops run parse st item =
           (Inl (GotTooManyResults (length (rows (snd (run (connection st) (exists_sql ops item)))))
                   (exists_sql ops item)),
            item,
            st\<lparr>connection := fst (run (connection st) (exists_sql ops item)),
               executed := executed st @ [(Read, exists_sql ops item)]\<rparr>)"
proof -
  obtain g st1 where g: "get_single_value run st (exists_sql ops item) (py_int parse) False = (g, st1)"
    by (cases "get_single_value run st (exists_sql ops item) (py_int parse) False")
  have "g = Inl (GotTooManyResults (length (rows (snd (run (connection st) (exists_sql ops item)))))
                   (exists_sql ops item))"
    using get_single_value_many[of run st "exists_sql ops item" "py_int parse" False] assms(2) g
    by simp
  with g get_single_value_stateD[OF g] assms(1) show ?thesis
    by (simp add: insert_or_update_def)
qed

lemma insert_or_update_many_fk:
  assumes "\<not> uses_alternate_key_lookup ops item" "\<not> uses_local_primary_key ops item"
    and "rowcount (snd (run (connection st) (exists_sql ops item))) > 1"
  shows "insert_or_update ops run parse st item =
           (Inl (GotTooManyResults (rowcount (snd (run (connection st) (exists_sql ops item))))
                   (exists_sql ops item)),
            item,
            st\<lparr>connection := fst (run (connection st) (exists_sql ops item)),
               executed := executed st @ [(Read, exists_sql ops item)]\<rparr>)"
  using assms by (simp add: insert_or_update_def check_existing_eq)

lemma insert_or_update_many_local:
  assumes "\<not> uses_alternate_key_lookup ops item" "uses_local_primary_key ops item"
    and "\<not> needs_insert ops item"
    and "rowcount (snd (run (connection st) (needs_update_sql ops item))) > 1"
  shows "insert_or_update ops run parse st item =
           (Inl (GotTooManyResults (rowcount (snd (run (connection st) (needs_update_sql ops item))))
                   (needs_update_sql ops item)),
            item,
            st\<lparr>connection := fst (run (connection st) (needs_update_sql ops item)),
               executed := executed st @ [(Read, needs_update_sql ops item)]\<rparr>)"
  using assms by (simp add: insert_or_update_def update_if_needed_many)

lemma insert_or_update_many_fk_second:
  assumes "\<not> uses_alternate_key_lookup ops item" "\<not> uses_local_primary_key ops item"
    and "rowcount (snd (run (connection st) (exists_sql ops item))) = 1"
    and "rowcount (snd (run (fst (run (connection st) (exists_sql ops item)))
                         (needs_update_sql ops item))) > 1"
  shows "\<exists>n. fst (insert_or_update ops run parse st item)
               = Inl (GotTooManyResults n (needs_update_sql ops item))"
    and "writes (snd (snd (insert_or_update ops run parse st item))) = writes st"
proof -
  let ?st1 = "st\<lparr>connection := fst (run (connection st) (exists_sql ops item)),
                 executed := executed st @ [(Read, exists_sql ops item)]\<rparr>"
  have m: "rowcount (snd (run (connection ?st1) (needs_update_sql ops item))) > 1"
    using assms(4) by simp
  have u: "update_if_needed ops run ?st1 item (key_value ops item) =
           (Inl (GotTooManyResults
                   (rowcount (snd (run (connection ?st1) (needs_update_sql ops item))))
                   (needs_update_sql ops item)),
            ?st1\<lparr>connection := fst (run (connection ?st1) (needs_update_sql ops item)),
               executed := executed ?st1 @ [(Read, needs_update_sql ops item)]\<rparr>)"
    using m by (rule update_if_needed_many)
  show "\<exists>n. fst (insert_or_update ops run parse st item)
               = Inl (GotTooManyResults n (needs_update_sql ops item))"
    using assms(1-3) u by (simp add: insert_or_update_def check_existing_eq)
  show "writes (snd (snd (insert_or_update ops run parse st item))) = writes st"
    using assms(1-3) u by (simp add: insert_or_update_def check_existing_eq writes_def)
qed

lemma get_single_value_single:
  "rows (snd (run (connection st) q)) = [ [(c, v)] ] \<Longrightarrow>
     fst (get_single_value run st q op foe) = and_then (op v) (\<lambda>x. Inr (Some x))"
  by (simp add: get_single_value_def execute_eq Let_def)

lemma insert_or_update_many_alt_second:
  assumes "uses_alternate_key_lookup ops item"
    and "rows (snd (run (connection st) (exists_sql ops item))) = [ [(c, v)] ]"
    and "py_int parse v = Inr k" "k \<noteq> 0"
    and "rowcount (snd (run (fst (run (connection st) (exists_sql ops item)))
                         (needs_update_sql ops (set_key_value ops item (Some k))))) > 1"
  shows "\<exists>n. fst (insert_or_update ops run parse st item)
               = Inl (GotTooManyResults n (needs_update_sql ops (set_key_value ops item (Some k))))"
    and "writes (snd (snd (insert_or_update ops run parse st item))) = writes st"
proof -
  let ?st1 = "st\<lparr>connection := fst (run (connection st) (exists_sql ops item)),
                 executed := executed st @ [(Read, exists_sql ops item)]\<rparr>"
  let ?item1 = "set_key_value ops item (Some k)"
  obtain g st1 where g: "get_single_value run st (exists_sql ops item) (py_int parse) False = (g, st1)"
    by (cases "get_single_value run st (exists_sql ops item) (py_int parse) False")
  have gv: "g = Inr (Some k)"
    using get_single_value_single[of run st "exists_sql ops item" c v "py_int parse" False]
      assms(2,3) g by simp
  have st1: "st1 = ?st1" using get_single_value_stateD[OF g] .
  have m: "rowcount (snd (run (connection ?st1) (needs_update_sql ops ?item1))) > 1"
    using assms(5) by simp
  have u: "update_if_needed ops run ?st1 ?item1 (Some k) =
           (Inl (GotTooManyResults
                   (rowcount (snd (run (connection ?st1) (needs_update_sql ops ?item1))))
                   (needs_update_sql ops ?item1)),
            ?st1\<lparr>connection := fst (run (connection ?st1) (needs_update_sql ops ?item1)),
               executed := executed ?st1 @ [(Read, needs_update_sql ops ?item1)]\<rparr>)"
    using m by (rule update_if_needed_many)
  have nf: "\<not> falsy (Some k)" using assms(4) by (simp add: falsy_def)
  have iou: "insert_or_update ops run parse st item =
           (Inl (GotTooManyResults
                   (rowcount (snd (run (connection ?st1) (needs_update_sql ops ?item1))))
                   (needs_update_sql ops ?item1)),
            ?item1,
            ?st1\<lparr>connection := fst (run (connection ?st1) (needs_update_sql ops ?item1)),
               executed := executed ?st1 @ [(Read, needs_update_sql ops ?item1)]\<rparr>)"
    using assms(1) g gv st1 nf u by (simp add: insert_or_update_def Let_def)
  show "\<exists>n. fst (insert_or_update ops run parse st item)
               = Inl (GotTooManyResults n (needs_update_sql ops ?item1))"
    using iou by simp
  show "writes (snd (snd (insert_or_update ops run parse st item))) = writes st"
    using iou by (simp add: writes_def)
qed

text \<open>
  C7: whenever a lookup of \<open>insert_or_update\<close> matches more than one row, the
  call raises the too-many-results error and issues no write. The lookups are
  the existence query of the alternate-key and the foreign-key strategy, the
  comparison query that follows it when exactly one row exists, and the
  comparison query of the local-key strategy.
\<close>

theorem C7_ambiguous_lookup_raises:
  "(uses_alternate_key_lookup ops item
      \<and> length (rows (snd (run (connection st) (exists_sql ops item)))) > 1)
   \<or> (\<not> uses_alternate_key_lookup ops item \<and> \<not> uses_local_primary_key ops item
      \<and> rowcount (snd (run (connection st) (exists_sql ops item))) > 1)
   \<or> (\<not> uses_alternate_key_lookup ops item \<and> uses_local_primary_key ops item
      \<and> \<not> needs_insert ops item
      \<and> rowcount (snd (run (connection st) (needs_update_sql ops item))) > 1)
   \<or> (\<not> uses_alternate_key_lookup ops item \<and> \<not> uses_local_primary_key ops item
      \<and> rowcount (snd (run (connection st) (exists_sql ops item))) = 1
      \<and> rowcount (snd (run (fst (run (connection st) (exists_sql ops item)))
                           (needs_update_sql ops item))) > 1)
   \<or> (uses_alternate_key_lookup ops item
      \<and> rows (snd (run (connection st) (exists_sql ops item))) = [ [(c, v)] ]
      \<and> py_int parse v = Inr k \<and> k \<noteq> 0
      \<and> rowcount (snd (run (fst (run (connection st) (exists_sql ops item)))
                           (needs_update_sql ops (set_key_value ops item (Some k))))) > 1)
   \<Longrightarrow>
     (\<exists>n q. fst (insert_or_update ops run parse st item) = Inl (GotTooManyResults n q))
     \<and> writes (snd (snd (insert_or_update ops run parse st item))) = writes st"
proof (elim disjE conjE)
  assume "uses_alternate_key_lookup ops item"
    "length (rows (snd (run (connection st) (exists_sql ops item)))) > 1"
  then show ?thesis
    using insert_or_update_many_alt[of ops item run st parse] by simp
next
  assume "\<not> uses_alternate_key_lookup ops item" "\<not> uses_local_primary_key ops item"
    "rowcount (snd (run (connection st) (exists_sql ops item))) > 1"
  then show ?thesis
    using insert_or_update_many_fk[of ops item run st parse] by simp
next
  assume "\<not> uses_alternate_key_lookup ops item" "uses_local_primary_key ops item"
    "\<not> needs_insert ops item"
    "rowcount (snd (run (connection st) (needs_update_sql ops item))) > 1"
  then show ?thesis
    using insert_or_update_many_local[of ops item run st parse] by simp
next
  assume "\<not> uses_alternate_key_lookup ops item" "\<not> uses_local_primary_key ops item"
    "rowcount (snd (run (connection st) (exists_sql ops item))) = 1"
    "rowcount (snd (run (fst (run (connection st) (exists_sql ops item)))
                           (needs_update_sql ops item))) > 1"
  then show ?thesis
    using insert_or_update_many_fk_second[of ops item run st parse] by blast
next
  assume "uses_alternate_key_lookup ops item"
    "rows (snd (run (connection st) (exists_sql ops item))) = [ [(c, v)] ]"
    "py_int parse v = Inr k" "k \<noteq> 0"
    "rowcount (snd (run (fst (run (connection st) (exists_sql ops item)))
                           (needs_update_sql ops (set_key_value ops item (Some k))))) > 1"
  then show ?thesis
    using insert_or_update_many_alt_second[of ops item run st c v parse k] by blast
qed

theorem C7_ambiguous_lookup_raises_witness:
  "rowcount (snd (example_store (connection (example_wrapper False 2)) ''SELECT id WHERE name'')) = 2
   \<and> (\<exists>n q. fst (insert_or_update example_ops example_store (\<lambda>s. None) (example_wrapper False 2)
                  \<lparr>item_key = Some 5, alternate = False, local_key = False\<rparr>)
               = Inl (GotTooManyResults n q))
   \<and> writes (snd (snd (insert_or_update example_ops example_store (\<lambda>s. None)
                  (example_wrapper False 2)
                  \<lparr>item_key = Some 5, alternate = False, local_key = False\<rparr>))) = []
   \<and> (\<exists>n q. fst (insert_or_update example_ops example_store (\<lambda>s. None) (example_wrapper False 2)
                  \<lparr>item_key = None, alternate = True, local_key = False\<rparr>)
               = Inl (GotTooManyResults n q))
   \<and> writes (snd (snd (insert_or_update example_ops example_store (\<lambda>s. None)
                  (example_wrapper False 2)
                  \<lparr>item_key = None, alternate = True, local_key = False\<rparr>))) = []
   \<and> (\<exists>n q. fst (insert_or_update example_ops example_store (\<lambda>s. None) (example_wrapper False 2)
                  \<lparr>item_key = Some 5, alternate = False, local_key = True\<rparr>)
               = Inl (GotTooManyResults n q))
   \<and> writes (snd (snd (insert_or_update example_ops example_store (\<lambda>s. None)
                  (example_wrapper False 2)
                  \<lparr>item_key = Some 5, alternate = False, local_key = True\<rparr>))) = []"
proof -
  let ?st = "example_wrapper False 2"
  let ?fk = "\<lparr>item_key = Some 5, alternate = False, local_key = False\<rparr>"
  let ?alt = "\<lparr>item_key = None, alternate = True, local_key = False\<rparr>"
  let ?loc = "\<lparr>item_key = Some 5, alternate = False, local_key = True\<rparr>"
  have w: "writes ?st = []"
    by (simp add: example_wrapper_def writes_def)
  have c: "rowcount (snd (example_store (connection ?st) ''SELECT id WHERE name'')) = 2"
    by (simp add: example_store_def example_wrapper_def)
  have fk: "\<not> uses_alternate_key_lookup example_ops ?fk \<and> \<not> uses_local_primary_key example_ops ?fk
      \<and> rowcount (snd (example_store (connection ?st) (exists_sql example_ops ?fk))) > 1"
    by (simp add: example_ops_def example_store_def example_wrapper_def)
  have alt: "uses_alternate_key_lookup example_ops ?alt
      \<and> length (rows (snd (example_store (connection ?st) (exists_sql example_ops ?alt)))) > 1"
    by (simp add: example_ops_def example_store_def example_wrapper_def)
  have loc: "\<not> uses_alternate_key_lookup example_ops ?loc \<and> uses_local_primary_key example_ops ?loc
      \<and> \<not> needs_insert example_ops ?loc
      \<and> rowcount (snd (example_store (connection ?st) (needs_update_sql example_ops ?loc))) > 1"
    by (simp add: example_ops_def example_store_def example_wrapper_def falsy_def)
  have 1: "(\<exists>n q. fst (insert_or_update example_ops example_store (\<lambda>s. None) ?st ?fk)
               = Inl (GotTooManyResults n q))
     \<and> writes (snd (snd (insert_or_update example_ops example_store (\<lambda>s. None) ?st ?fk)))
         = writes ?st"
    using fk by (intro C7_ambiguous_lookup_raises) blast
  have 2: "(\<exists>n q. fst (insert_or_update example_ops example_store (\<lambda>s. None) ?st ?alt)
               = Inl (GotTooManyResults n q))
     \<and> writes (snd (snd (insert_or_update example_ops example_store (\<lambda>s. None) ?st ?alt)))
         = writes ?st"
    using alt by (intro C7_ambiguous_lookup_raises) blast
  have 3: "(\<exists>n q. fst (insert_or_update example_ops example_store (\<lambda>s. None) ?st ?loc)
               = Inl (GotTooManyResults n q))
     \<and> writes (snd (snd (insert_or_update example_ops example_store (\<lambda>s. None) ?st ?loc)))
         = writes ?st"
    using loc by (intro C7_ambiguous_lookup_raises) blast
  show ?thesis using c 1 2 3 w by simp
qed

lemma insert_or_update_local_insert:
  assumes "\<not> uses_alternate_key_lookup ops item" "uses_local_primary_key ops item"
    and "\<not> dry_run st" "needs_insert ops item"
    and "rows (snd (run (connection st) (insert_sql ops item))) = []"
  shows "insert_or_update ops run parse st item =
           (Inr (Some (lastrowid (snd (run (connection st) (insert_sql ops item))))),
            item,
            st\<lparr>connection := fst (run (connection st) (insert_sql ops item)),
               executed := executed st @ [(Write, insert_sql ops item)]\<rparr>)"
  using assms by (simp add: insert_or_update_def insert_new_wet)

lemma insert_or_update_local_same:
  assumes "\<not> uses_alternate_key_lookup ops item" "uses_local_primary_key ops item"
    and "\<not> needs_insert ops item"
    and "rowcount (snd (run (connection st) (needs_update_sql ops item))) = 1"
  shows "insert_or_update ops run parse st item =
           (Inr (key_value ops item),
            item,
            st\<lparr>connection := fst (run (connection st) (needs_update_sql ops item)),
               executed := executed st @ [(Read, needs_update_sql ops item)]\<rparr>)"
  using assms by (simp add: insert_or_update_def update_if_needed_same)

text \<open>
  C1, as stated, fails: \<open>insert_or_update\<close> does not store the generated key in a
  record with a local primary key. On a record whose key is unset, each of two
  sequential calls issues an insert, and the two calls return different keys.
\<close>

theorem C1_local_key_idempotence_counterexample:
  "fst (insert_or_update example_ops example_store (\<lambda>s. None) (example_wrapper False 0)
          \<lparr>item_key = None, alternate = False, local_key = True\<rparr>) = Inr (Some 1)
   \<and> fst (snd (insert_or_update example_ops example_store (\<lambda>s. None) (example_wrapper False 0)
          \<lparr>item_key = None, alternate = False, local_key = True\<rparr>))
       = \<lparr>item_key = None, alternate = False, local_key = True\<rparr>
   \<and> fst (insert_or_update example_ops example_store (\<lambda>s. None)
          (snd (snd (insert_or_update example_ops example_store (\<lambda>s. None)
             (example_wrapper False 0) \<lparr>item_key = None, alternate = False, local_key = True\<rparr>)))
          \<lparr>item_key = None, alternate = False, local_key = True\<rparr>) = Inr (Some 2)
   \<and> writes (snd (snd (insert_or_update example_ops example_store (\<lambda>s. None)
          (snd (snd (insert_or_update example_ops example_store (\<lambda>s. None)
             (example_wrapper False 0) \<lparr>item_key = None, alternate = False, local_key = True\<rparr>)))
          \<lparr>item_key = None, alternate = False, local_key = True\<rparr>)))
       = [''INSERT'', ''INSERT'']"
proof -
  let ?item = "\<lparr>item_key = None, alternate = False, local_key = True\<rparr>"
  let ?st0 = "example_wrapper False 0"
  let ?st1 = "?st0\<lparr>connection := 1, executed := [(Write, ''INSERT'')]\<rparr>"
  have i: "\<not> uses_alternate_key_lookup example_ops ?item"
    "uses_local_primary_key example_ops ?item" "needs_insert example_ops ?item"
    "insert_sql example_ops ?item = ''INSERT''"
    by (simp_all add: example_ops_def falsy_def)
  have 1: "insert_or_update example_ops example_store (\<lambda>s. None) ?st0 ?item
             = (Inr (Some 1), ?item, ?st1)"
    using insert_or_update_local_insert[of example_ops ?item ?st0 example_store "\<lambda>s. None"] i
    by (simp add: example_store_def example_wrapper_def)
  have 2: "insert_or_update example_ops example_store (\<lambda>s. None) ?st1 ?item
             = (Inr (Some 2), ?item,
                ?st1\<lparr>connection := 2, executed := [(Write, ''INSERT''), (Write, ''INSERT'')]\<rparr>)"
    using insert_or_update_local_insert[of example_ops ?item ?st1 example_store "\<lambda>s. None"] i
    by (simp add: example_store_def example_wrapper_def)
  show ?thesis
    unfolding 1 snd_conv fst_conv 2 by (simp add: writes_def)
qed

text \<open>
  C1, amended: for every record using the local-primary-key strategy (outside
  dry-run mode), \<open>insert_or_update\<close> leaves the record as it is. Two sequential
  calls with an unchanged record that does not need insertion and whose stored
  row is identical (the comparison query matches it) issue zero writes and both
  return the record's key. For a record that needs insertion, every call issues
  one insert, two in total, each returning the key generated by its own insert.
\<close>

theorem C1_local_key_two_calls:
  assumes "\<not> uses_alternate_key_lookup ops item" "uses_local_primary_key ops item"
    and "\<not> dry_run st"
  shows
   "(\<not> needs_insert ops item
       \<and> rowcount (snd (run (connection st) (needs_update_sql ops item))) = 1
       \<and> rowcount (snd (run (fst (run (connection st) (needs_update_sql ops item)))
                            (needs_update_sql ops item))) = 1
     \<longrightarrow> (case insert_or_update ops run parse st item of
            (r1, item1, st1) \<Rightarrow>
              (case insert_or_update ops run parse st1 item1 of
                 (r2, item2, st2) \<Rightarrow>
                   item1 = item \<and> item2 = item
                   \<and> r1 = Inr (key_value ops item) \<and> r2 = Inr (key_value ops item)
                   \<and> writes st1 = writes st \<and> writes st2 = writes st)))
    \<and> (needs_insert ops item
       \<and> rows (snd (run (connection st) (insert_sql ops item))) = []
       \<and> rows (snd (run (fst (run (connection st) (insert_sql ops item)))
                       (insert_sql ops item))) = []
     \<longrightarrow> (case insert_or_update ops run parse st item of
            (r1, item1, st1) \<Rightarrow>
              (case insert_or_update ops run parse st1 item1 of
                 (r2, item2, st2) \<Rightarrow>
                   item1 = item \<and> item2 = item
                   \<and> r1 = Inr (Some (lastrowid (snd (run (connection st) (insert_sql ops item)))))
                   \<and> r2 = Inr (Some (lastrowid
                         (snd (run (fst (run (connection st) (insert_sql ops item)))
                                (insert_sql ops item)))))
                   \<and> writes st1 = writes st @ [insert_sql ops item]
                   \<and> writes st2 = writes st @ [insert_sql ops item, insert_sql ops item])))"
proof (intro conjI impI)
  assume a: "\<not> needs_insert ops item
       \<and> rowcount (snd (run (connection st) (needs_update_sql ops item))) = 1
       \<and> rowcount (snd (run (fst (run (connection st) (needs_update_sql ops item)))
                            (needs_update_sql ops item))) = 1"
  let ?q = "needs_update_sql ops item"
  let ?st1 = "st\<lparr>connection := fst (run (connection st) ?q),
                 executed := executed st @ [(Read, ?q)]\<rparr>"
  have 1: "insert_or_update ops run parse st item = (Inr (key_value ops item), item, ?st1)"
    using insert_or_update_local_same[OF assms(1,2), of run st parse] a by simp
  have "rowcount (snd (run (connection ?st1) ?q)) = 1" using a by simp
  then have 2: "insert_or_update ops run parse ?st1 item
      = (Inr (key_value ops item), item,
         ?st1\<lparr>connection := fst (run (connection ?st1) ?q),
              executed := executed ?st1 @ [(Read, ?q)]\<rparr>)"
    using insert_or_update_local_same[OF assms(1,2), of run ?st1 parse] a by blast
  show "case insert_or_update ops run parse st item of
            (r1, item1, st1) \<Rightarrow>
              (case insert_or_update ops run parse st1 item1 of
                 (r2, item2, st2) \<Rightarrow>
                   item1 = item \<and> item2 = item
                   \<and> r1 = Inr (key_value ops item) \<and> r2 = Inr (key_value ops item)
                   \<and> writes st1 = writes st \<and> writes st2 = writes st)"
    unfolding 1 prod.case 2 by (simp add: writes_def)
next
  assume a: "needs_insert ops item
       \<and> rows (snd (run (connection st) (insert_sql ops item))) = []
       \<and> rows (snd (run (fst (run (connection st) (insert_sql ops item)))
                       (insert_sql ops item))) = []"
  let ?q = "insert_sql ops item"
  let ?st1 = "st\<lparr>connection := fst (run (connection st) ?q),
                 executed := executed st @ [(Write, ?q)]\<rparr>"
  have 1: "insert_or_update ops run parse st item
      = (Inr (Some (lastrowid (snd (run (connection st) ?q)))), item, ?st1)"
    using insert_or_update_local_insert[OF assms, of run parse] a by simp
  have d: "\<not> dry_run ?st1" using assms(3) by simp
  have "rows (snd (run (connection ?st1) ?q)) = []" using a by simp
  then have 2: "insert_or_update ops run parse ?st1 item
      = (Inr (Some (lastrowid (snd (run (connection ?st1) ?q)))), item,
         ?st1\<lparr>connection := fst (run (connection ?st1) ?q),
              executed := executed ?st1 @ [(Write, ?q)]\<rparr>)"
    using insert_or_update_local_insert[OF assms(1,2) d, of run parse] a by blast
  show "case insert_or_update ops run parse st item of
            (r1, item1, st1) \<Rightarrow>
              (case insert_or_update ops run parse st1 item1 of
                 (r2, item2, st2) \<Rightarrow>
                   item1 = item \<and> item2 = item
                   \<and> r1 = Inr (Some (lastrowid (snd (run (connection st) (insert_sql ops item)))))
                   \<and> r2 = Inr (Some (lastrowid
                         (snd (run (fst (run (connection st) (insert_sql ops item)))
                                (insert_sql ops item)))))
                   \<and> writes st1 = writes st @ [insert_sql ops item]
                   \<and> writes st2 = writes st @ [insert_sql ops item, insert_sql ops item])"
    unfolding 1 prod.case 2 by (simp add: writes_def)
qed

theorem C1_local_key_two_calls_witness:
  "(case insert_or_update example_ops example_store (\<lambda>s. None) (example_wrapper False 1)
           \<lparr>item_key = Some 5, alternate = False, local_key = True\<rparr> of
      (r1, item1, st1) \<Rightarrow>
        (case insert_or_update example_ops example_store (\<lambda>s. None) st1 item1 of
           (r2, item2, st2) \<Rightarrow>
             r1 = Inr (Some 5) \<and> r2 = Inr (Some 5) \<and> writes st1 = [] \<and> writes st2 = []))
   \<and> (case insert_or_update example_ops example_store (\<lambda>s. None) (example_wrapper False 0)
           \<lparr>item_key = None, alternate = False, local_key = True\<rparr> of
      (r1, item1, st1) \<Rightarrow>
        (case insert_or_update example_ops example_store (\<lambda>s. None) st1 item1 of
           (r2, item2, st2) \<Rightarrow>
             r1 = Inr (Some 1) \<and> r2 = Inr (Some 2)
             \<and> writes st1 = [''INSERT''] \<and> writes st2 = [''INSERT'', ''INSERT'']))"
proof -
  let ?kept = "\<lparr>item_key = Some 5, alternate = False, local_key = True\<rparr>"
  let ?new = "\<lparr>item_key = None, alternate = False, local_key = True\<rparr>"
  have w: "writes (example_wrapper False 1) = []" "writes (example_wrapper False 0) = []"
    by (simp_all add: example_wrapper_def writes_def)
  have kept: "\<not> uses_alternate_key_lookup example_ops ?kept"
    "uses_local_primary_key example_ops ?kept"
    "\<not> dry_run (example_wrapper False 1)"
    "\<not> needs_insert example_ops ?kept
       \<and> rowcount (snd (example_store (connection (example_wrapper False 1))
                          (needs_update_sql example_ops ?kept))) = 1
       \<and> rowcount (snd (example_store
                          (fst (example_store (connection (example_wrapper False 1))
                                  (needs_update_sql example_ops ?kept)))
                          (needs_update_sql example_ops ?kept))) = 1"
    "key_value example_ops ?kept = Some 5"
    by (simp_all add: example_ops_def example_store_def example_wrapper_def falsy_def)
  have new: "\<not> uses_alternate_key_lookup example_ops ?new"
    "uses_local_primary_key example_ops ?new"
    "\<not> dry_run (example_wrapper False 0)"
    "needs_insert example_ops ?new
       \<and> rows (snd (example_store (connection (example_wrapper False 0))
                      (insert_sql example_ops ?new))) = []
       \<and> rows (snd (example_store
                      (fst (example_store (connection (example_wrapper False 0))
                              (insert_sql example_ops ?new)))
                      (insert_sql example_ops ?new))) = []"
    "insert_sql example_ops ?new = ''INSERT''"
    "lastrowid (snd (example_store (connection (example_wrapper False 0)) ''INSERT'')) = 1"
    "lastrowid (snd (example_store
                      (fst (example_store (connection (example_wrapper False 0)) ''INSERT''))
                      ''INSERT'')) = 2"
    by (simp_all add: example_ops_def example_store_def example_wrapper_def falsy_def)
  have a: "case insert_or_update example_ops example_store (\<lambda>s. None) (example_wrapper False 1)
           ?kept of
      (r1, item1, st1) \<Rightarrow>
        (case insert_or_update example_ops example_store (\<lambda>s. None) st1 item1 of
           (r2, item2, st2) \<Rightarrow>
             r1 = Inr (Some 5) \<and> r2 = Inr (Some 5) \<and> writes st1 = [] \<and> writes st2 = [])"
    using C1_local_key_two_calls[OF kept(1-3), of example_store "\<lambda>s. None"] kept(4,5) w(1)
    by (auto split: prod.splits)
  have b: "case insert_or_update example_ops example_store (\<lambda>s. None) (example_wrapper False 0)
           ?new of
      (r1, item1, st1) \<Rightarrow>
        (case insert_or_update example_ops example_store (\<lambda>s. None) st1 item1 of
           (r2, item2, st2) \<Rightarrow>
             r1 = Inr (Some 1) \<and> r2 = Inr (Some 2)
             \<and> writes st1 = [''INSERT''] \<and> writes st2 = [''INSERT'', ''INSERT''])"
    using C1_local_key_two_calls[OF new(1-3), of example_store "\<lambda>s. None"] new(4-7) w(2)
    by (auto split: prod.splits)
  show ?thesis using a b by blast
qed

end
